theory Spec2Isabelle
  imports Main "HOL-Library.Word"
begin

section \<open>Data model of the PFCP agent (upf.go, pfcpiface.go)\<close>

text \<open>
  Go's fixed-width integers are words; \<open>time.Duration\<close> is an \<open>int64\<close> counting
  nanoseconds; \<open>net.IP\<close> is a byte slice whose \<open>nil\<close> value is the empty list. A
  pointer that may be \<open>nil\<close> is an \<open>option\<close>.
\<close>

type_synonym Duration = "64 word"
type_synonym IP = "8 word list"

record QosConfigVal =
  cbs :: "32 word"
  pbs :: "32 word"
  ebs :: "32 word"
  burstDurationMs :: "32 word"
  schedulePriority :: "32 word"

record UeResource =
  name :: string
  dnn :: string

record SliceInfo =
  name :: string
  uplinkMbr :: "64 word"
  downlinkMbr :: "64 word"
  ulBurstBytes :: "64 word"
  dlBurstBytes :: "64 word"
  ueResList :: "UeResource list"

text \<open>
  The interface \<open>datapath\<close> has two implementing types, \<open>UP4\<close> (P4Runtime switch)
  and \<open>bess\<close> (software pipeline). Their method bodies live outside the two source
  files; what a method call returns is supplied by the environment below.
\<close>

datatype datapath = UP4 | bess

text \<open>
  Error values. \<open>ErrInvalidArgument\<close> carries the argument name and the offending
  value, \<open>ErrServerClosed\<close> is \<open>http.ErrServerClosed\<close>, \<open>ErrExternal\<close> stands for
  any error produced by a collaborator (backend, resolver, parser, HTTP client), and
  \<open>ErrBackendFailure\<close> wraps the error of a failed backend programming call.
\<close>

datatype error =
    ErrInvalidArgument string "SliceInfo option"
  | ErrServerClosed
  | ErrExternal string
  | ErrBackendFailure error

text \<open>A buffered channel of \<open>uint64\<close>: its capacity and the values waiting in it.\<close>

record chan_uint64 =
  capacity :: nat
  buffer :: "64 word list"

definition make_chan :: "nat \<Rightarrow> chan_uint64" where
  "make_chan n = \<lparr>capacity = n, buffer = []\<rparr>"

text \<open>An IP pool handle; only the CIDR it was built from is visible here.\<close>

datatype IPPool = IPPool string

subsection \<open>Configuration\<close>

text \<open>
  The fields of \<open>Conf\<close> that the two files read. \<open>MaxReqRetries\<close> is assigned to a
  \<open>uint8\<close> field without conversion; \<open>ReadTimeout\<close> is converted to a duration and
  is taken to be a \<open>uint32\<close>.
\<close>

record IfaceType =
  IfName :: string

record CPIfaceInfo =
  Peers :: "string list"
  UseFQDN :: bool
  NodeID :: string
  HTTPPort :: string
  Dnn :: string
  EnableUeIPAlloc :: bool
  UEIPPool :: string

record Conf =
  AccessIface :: IfaceType
  CoreIface :: IfaceType
  CPIface :: CPIfaceInfo
  EnableP4rt :: bool
  EnableEndMarker :: bool
  EnableFlowMeasure :: bool
  MaxReqRetries :: "8 word"
  EnableHBTimer :: bool
  ReadTimeout :: "32 word"
  RespTimeout :: string
  HeartBeatInterval :: string

subsection \<open>The UPF runtime context\<close>

record upf =
  EnableUeIPAlloc :: bool
  EnableEndMarker :: bool
  EnableFlowMeasure :: bool
  accessIface :: string
  coreIface :: string
  ippoolCidr :: string
  AccessIP :: IP
  CoreIP :: IP
  NodeID :: string
  ippool :: "IPPool option"
  peers :: "string list"
  Dnn :: string
  reportNotifyChan :: chan_uint64
  sliceInfo :: "SliceInfo option"
  readTimeout :: Duration
  Hostname :: string
  datapath :: datapath
  maxReqRetries :: "8 word"
  respTimeout :: Duration
  enableHBTimer :: bool
  hbInterval :: Duration

subsection \<open>Observable effects\<close>

text \<open>
  Calls that leave the two files (logging, backend methods, the PFCP node, the HTTP
  server and client, signal registration, goroutine creation) are recorded as events,
  in program order.
\<close>

datatype level = Info | Warn | Error | Fatal

datatype signal = SIGINT | SIGTERM | SIGHUP | SIGQUIT

datatype goroutine = HttpWorker | SignalWorker

text \<open>
  An interface address as \<open>net.InterfaceAddrs\<close> returns it: an \<open>*net.IPNet\<close> with
  its IP, or a value of another \<open>net.Addr\<close> type.
\<close>

datatype Addr = IPNet IP | OtherAddr

record request =
  Method :: string
  URL :: string
  ContentType :: string
  Body :: string

datatype event =
    Log level string "error option"
  | Print string
  | Dp_IsConnected datapath IP
  | Dp_AddSliceInfo datapath SliceInfo
  | Dp_SetUpfInfo datapath
  | Upf_sim
  | Mu_Lock
  | Mu_Unlock
  | New_PFCPNode
  | Setup_ConfigHandler
  | Setup_Prom
  | Go goroutine
  | Signal_Notify signal
  | Client_Do request
  | Sleep nat
  | Node_Serve
  | Node_Stop
  | Node_Done
  | Http_Shutdown
  | Ctx_cancel

text \<open>
  How a call ends: it returns a value, or \<open>log.Fatalln\<close> ends the process, or the Go
  runtime panics.
\<close>

datatype 'a outcome = Returned 'a | Exited | Panicked

subsection \<open>The environment\<close>

text \<open>
  Results of the collaborators. A backend method sees its variant, the runtime context
  it was wired to by \<open>SetUpfInfo\<close> (a pointer, so it reads the fields as they are at
  the time of the call) and its argument. \<open>client_Do n\<close> is the result of the
  \<open>n\<close>-th HTTP request (from 0): an error or a response status.
\<close>

record env =
  dp_IsConnected :: "datapath \<Rightarrow> IP \<Rightarrow> bool"
  dp_AddSliceInfo :: "datapath \<Rightarrow> upf \<Rightarrow> SliceInfo \<Rightarrow> error option"
  FqdnHostname :: "error + string"
  LookupHost :: "string \<Rightarrow> error + string list"
  GetUnicastAddressFromInterface :: "string \<Rightarrow> error + IP"
  ParseDuration :: "string \<Rightarrow> error + Duration"
  NewIPPool :: "string \<Rightarrow> error + IPPool"
  simulate_enable :: bool
  simulate_keepGoing :: bool
  setupProm :: "error option"
  http_ListenAndServe :: "error option"
  http_Shutdown :: "error option"
  InterfaceAddrs :: "error + Addr list"
  http_NewRequest :: "string \<Rightarrow> string \<Rightarrow> error option"
  client_Do :: "nat \<Rightarrow> error + nat"

section \<open>Methods of the runtime context (upf.go)\<close>

definition isConnected :: "env \<Rightarrow> upf \<Rightarrow> bool \<times> event list" where
  "isConnected env u =
     (dp_IsConnected env (datapath u) (AccessIP u), [Dp_IsConnected (datapath u) (AccessIP u)])"

text \<open>
  \<open>addSliceInfo\<close>: a \<open>nil\<close> argument is rejected before anything else happens;
  otherwise the field is assigned first and the backend is called second, on the
  context that already holds the new value. The result is the returned error
  (\<open>None\<close> for \<open>nil\<close>), the context afterwards and the events of the call.
\<close>

definition addSliceInfo :: "env \<Rightarrow> upf \<Rightarrow> SliceInfo option \<Rightarrow> error option \<times> upf \<times> event list" where
  "addSliceInfo env u si =
     (case si of
        None \<Rightarrow> (Some (ErrInvalidArgument ''sliceInfo'' si), u, [])
      | Some s \<Rightarrow>
          (let u' = u\<lparr>sliceInfo := si\<rparr>
           in (dp_AddSliceInfo env (datapath u') u' s, u', [Dp_AddSliceInfo (datapath u') s])))"

section \<open>Construction of the runtime context (upf.go, NewUPF)\<close>

text \<open>
  Sequencing of calls that may end the process: the events of both parts are kept in
  order, and nothing runs after an exit or a panic.
\<close>

definition andThen ::
  "'a outcome \<times> event list \<Rightarrow> ('a \<Rightarrow> 'b outcome \<times> event list) \<Rightarrow> 'b outcome \<times> event list" where
  "andThen r k =
     (case r of
        (Returned x, evs) \<Rightarrow> (case k x of (y, evs') \<Rightarrow> (y, evs @ evs'))
      | (Exited, evs) \<Rightarrow> (Exited, evs)
      | (Panicked, evs) \<Rightarrow> (Panicked, evs))"

text \<open>
  The node identity (lines 98 to 114): the configured identity, or the host's FQDN
  when \<open>UseFQDN\<close> is set and none is configured; a non-empty identity is then
  resolved and replaced by the first address found. Indexing an empty result panics.
\<close>

definition NewUPF_nodeID :: "env \<Rightarrow> Conf \<Rightarrow> string outcome \<times> event list" where
  "NewUPF_nodeID env cfg =
     andThen
       (if UseFQDN (CPIface cfg) \<and> CPIfaceInfo.NodeID (CPIface cfg) = []
        then (case FqdnHostname env of
                Inl err \<Rightarrow> (Exited, [Log Fatal ''Unable to get hostname'' (Some err)])
              | Inr h \<Rightarrow> (Returned h, []))
        else (Returned (CPIfaceInfo.NodeID (CPIface cfg)), []))
       (\<lambda>nodeID.
          if nodeID \<noteq> []
          then (case LookupHost env nodeID of
                  Inl err \<Rightarrow> (Exited, [Log Fatal ''Unable to resolve hostname'' (Some err)])
                | Inr hosts \<Rightarrow>
                    (case hosts of [] \<Rightarrow> (Panicked, []) | h # _ \<Rightarrow> (Returned h, [])))
          else (Returned nodeID, []))"

text \<open>
  For stating where this block ends the process: the identity that line 107 tests
  (empty when the process has exited before that line).
\<close>

definition nodeID_to_resolve :: "env \<Rightarrow> Conf \<Rightarrow> string" where
  "nodeID_to_resolve env cfg =
     (if UseFQDN (CPIface cfg) \<and> CPIfaceInfo.NodeID (CPIface cfg) = []
      then (case FqdnHostname env of Inl err \<Rightarrow> [] | Inr h \<Rightarrow> h)
      else CPIfaceInfo.NodeID (CPIface cfg))"

text \<open>
  The struct literal (lines 116 to 132). Fields it does not mention have Go's zero
  value. The report channel is \<open>make(chan uint64, 1024)\<close>.
\<close>

definition NewUPF_literal :: "Conf \<Rightarrow> string \<Rightarrow> datapath \<Rightarrow> upf" where
  "NewUPF_literal cfg nodeID dp =
     \<lparr> EnableUeIPAlloc = CPIfaceInfo.EnableUeIPAlloc (CPIface cfg),
       EnableEndMarker = Conf.EnableEndMarker cfg,
       EnableFlowMeasure = Conf.EnableFlowMeasure cfg,
       accessIface = IfName (AccessIface cfg),
       coreIface = IfName (CoreIface cfg),
       ippoolCidr = UEIPPool (CPIface cfg),
       AccessIP = [],
       CoreIP = [],
       NodeID = nodeID,
       ippool = None,
       peers = Peers (CPIface cfg),
       Dnn = CPIfaceInfo.Dnn (CPIface cfg),
       reportNotifyChan = make_chan 1024,
       sliceInfo = None,
       readTimeout = 1000000000 * ucast (ReadTimeout cfg),
       Hostname = CPIfaceInfo.NodeID (CPIface cfg),
       datapath = dp,
       maxReqRetries = MaxReqRetries cfg,
       respTimeout = 0,
       enableHBTimer = EnableHBTimer cfg,
       hbInterval = 0 \<rparr>"

text \<open>
  The peers are copied into a fresh slice of the same length (lines 134 to 141);
  \<open>copy\<close> returns the number of elements copied.
\<close>

definition NewUPF_peers :: "Conf \<Rightarrow> upf \<Rightarrow> upf \<times> event list" where
  "NewUPF_peers cfg u =
     (if length (Peers (CPIface cfg)) > 0
      then (let dst = replicate (length (Peers (CPIface cfg))) [];
                n = min (length dst) (length (Peers (CPIface cfg)))
            in (u\<lparr>peers := take n (Peers (CPIface cfg)) @ drop n dst\<rparr>,
                if n = 0
                then [Log Warn ''Failed to parse cpiface peers, PFCP Agent will not initiate connection to N4 peers.'' None]
                else []))
      else (u, []))"

text \<open>
  The interface addresses (lines 143 to 156), looked up only for the software
  pipeline. A failed lookup is logged and \<open>NewUPF\<close> returns \<open>nil\<close>: the result
  \<open>None\<close> here.
\<close>

definition NewUPF_addresses :: "env \<Rightarrow> Conf \<Rightarrow> upf \<Rightarrow> upf option \<times> event list" where
  "NewUPF_addresses env cfg u =
     (if \<not> EnableP4rt cfg
      then (case GetUnicastAddressFromInterface env (IfName (AccessIface cfg)) of
              Inl err \<Rightarrow> (None, [Log Error [] (Some err)])
            | Inr a \<Rightarrow>
                (case GetUnicastAddressFromInterface env (IfName (CoreIface cfg)) of
                   Inl err \<Rightarrow> (None, [Log Error [] (Some err)])
                 | Inr c \<Rightarrow> (Some (u\<lparr>AccessIP := a, CoreIP := c\<rparr>), [])))
      else (Some u, []))"

text \<open>The response timeout (lines 158 to 161).\<close>

definition NewUPF_respTimeout :: "env \<Rightarrow> Conf \<Rightarrow> upf \<Rightarrow> upf outcome \<times> event list" where
  "NewUPF_respTimeout env cfg u =
     (case ParseDuration env (RespTimeout cfg) of
        Inl err \<Rightarrow> (Exited, [Log Fatal ''Unable to parse resp_timeout'' None])
      | Inr d \<Rightarrow> (Returned (u\<lparr>respTimeout := d\<rparr>), []))"

text \<open>
  The heartbeat interval (lines 163 to 170), parsed only when the heartbeat timer is
  enabled and the configured interval is not the empty string.
\<close>

definition NewUPF_hbInterval :: "env \<Rightarrow> Conf \<Rightarrow> upf \<Rightarrow> upf outcome \<times> event list" where
  "NewUPF_hbInterval env cfg u =
     (if enableHBTimer u
      then (if HeartBeatInterval cfg \<noteq> []
            then (case ParseDuration env (HeartBeatInterval cfg) of
                    Inl err \<Rightarrow> (Exited, [Log Fatal ''Unable to parse heart_beat_interval'' None])
                  | Inr d \<Rightarrow> (Returned (u\<lparr>hbInterval := d\<rparr>), []))
            else (Returned u, []))
      else (Returned u, []))"

text \<open>The UE IP pool (lines 172 to 177), built only when UE IP allocation is enabled.\<close>

definition NewUPF_ippool :: "env \<Rightarrow> upf \<Rightarrow> upf outcome \<times> event list" where
  "NewUPF_ippool env u =
     (if EnableUeIPAlloc u
      then (case NewIPPool env (ippoolCidr u) of
              Inl err \<Rightarrow> (Exited, [Log Fatal ''ip pool init failed'' (Some err)])
            | Inr pool \<Rightarrow> (Returned (u\<lparr>ippool := Some pool\<rparr>), []))
      else (Returned u, []))"

text \<open>
  Modelled from the spec: the bodies of \<open>SetUpfInfo\<close> of the two backends are not in
  the two files. The spec describes the call as one-time wiring that lets the backend
  read shared fields of the runtime context, so it is an event that leaves the context
  as it is.
\<close>

definition NewUPF_wire :: "upf \<Rightarrow> upf option outcome \<times> event list" where
  "NewUPF_wire u =
     (Returned (Some u),
      [Dp_SetUpfInfo (datapath u), Print ''upf info :'', Print ''dnn = '', Print ''AccessIP = '',
       Print ''CoreIP = '', Print ''nodeID = ''])"

text \<open>
  \<open>NewUPF\<close>: the blocks above in source order. \<open>Returned None\<close> is the \<open>nil\<close>
  handle, \<open>Exited\<close> is \<open>log.Fatalln\<close>.
\<close>

definition NewUPF :: "env \<Rightarrow> Conf \<Rightarrow> datapath \<Rightarrow> upf option outcome \<times> event list" where
  "NewUPF env cfg dp =
     andThen (NewUPF_nodeID env cfg) (\<lambda>nodeID.
       case NewUPF_peers cfg (NewUPF_literal cfg nodeID dp) of
         (u, evs) \<Rightarrow>
           (case NewUPF_addresses env cfg u of
              (None, evs') \<Rightarrow> (Returned None, evs @ evs')
            | (Some u', evs') \<Rightarrow>
                andThen (Returned u', evs @ evs') (\<lambda>u.
                andThen (NewUPF_respTimeout env cfg u) (\<lambda>u.
                andThen (NewUPF_hbInterval env cfg u) (\<lambda>u.
                andThen (NewUPF_ippool env u) NewUPF_wire)))))"

section \<open>The PFCP interface (pfcpiface.go)\<close>

text \<open>
  The node, the HTTP server and the metric collectors are built by code outside the
  two files; the handle keeps what was passed to their constructors. The mutex
  \<open>mu\<close> appears through its lock and unlock events.
\<close>

datatype PFCPNode = PFCPNode "upf option"

datatype upfCollector = upfCollector

datatype PfcpNodeCollector = PfcpNodeCollector

record http_Server =
  Addr :: string
  ReadHeaderTimeout :: Duration

record PFCPIface =
  conf :: Conf
  node :: "PFCPNode option"
  fp :: datapath
  upf :: "upf option"
  httpSrv :: "http_Server option"
  httpEndpoint :: string
  uc :: "upfCollector option"
  nc :: "PfcpNodeCollector option"

text \<open>
  \<open>NewPFCPIface\<close>: the backend variant is fixed from \<open>EnableP4rt\<close>, the HTTP
  endpoint from the configured port (8080 by default), and the runtime context is
  whatever \<open>NewUPF\<close> returns for that variant, \<open>nil\<close> included.
\<close>

definition NewPFCPIface :: "env \<Rightarrow> Conf \<Rightarrow> PFCPIface outcome \<times> event list" where
  "NewPFCPIface env cfg =
     (let dp = (if EnableP4rt cfg then UP4 else bess);
          httpPort = (if HTTPPort (CPIface cfg) \<noteq> [] then HTTPPort (CPIface cfg) else ''8080'')
      in andThen (NewUPF env cfg dp) (\<lambda>u.
           (Returned \<lparr> conf = cfg, node = None, fp = dp, upf = u, httpSrv = None,
                       httpEndpoint = '':'' @ httpPort, uc = None, nc = None \<rparr>, [])))"

text \<open>
  \<open>mustInit\<close>: creates the node and the HTTP handlers; a failure of \<open>setupProm\<close> ends
  the process (before the deferred unlock could run).
\<close>

definition mustInit :: "env \<Rightarrow> PFCPIface \<Rightarrow> PFCPIface outcome \<times> event list" where
  "mustInit env p =
     (let p1 = p\<lparr>node := Some (PFCPNode (upf p))\<rparr>
      in case setupProm env of
           Some err \<Rightarrow>
             (Exited, [Mu_Lock, New_PFCPNode, Setup_ConfigHandler, Setup_Prom,
                       Log Fatal ''setupProm failed'' (Some err)])
         | None \<Rightarrow>
             (Returned (p1\<lparr>uc := Some upfCollector, nc := Some PfcpNodeCollector,
                            httpSrv := Some \<lparr>Addr = httpEndpoint p1,
                                              ReadHeaderTimeout = 60 * 1000000000\<rparr>\<rparr>),
              [Mu_Lock, New_PFCPNode, Setup_ConfigHandler, Setup_Prom, Mu_Unlock]))"

text \<open>
  \<open>Stop\<close>: under the mutex, shut the HTTP server down (an error is only logged), stop
  the node, wait for the node. The deferred calls run last, in reverse order of their
  registration: the context's cancel, then the unlock. \<open>Shutdown\<close> through a
  \<open>nil\<close> server pointer panics, and so, it is taken, do the node's calls through a
  \<open>nil\<close> node pointer; the deferred calls still run.
\<close>

definition Stop :: "env \<Rightarrow> PFCPIface \<Rightarrow> PFCPIface outcome \<times> event list" where
  "Stop env p =
     (case httpSrv p of
        None \<Rightarrow> (Panicked, [Mu_Lock, Ctx_cancel, Mu_Unlock])
      | Some srv \<Rightarrow>
          (let shut = [Http_Shutdown] @
                 (case http_Shutdown env of
                    Some err \<Rightarrow> [Log Error ''Failed to shutdown http: '' (Some err)]
                  | None \<Rightarrow> [])
           in case node p of
                None \<Rightarrow> (Panicked, [Mu_Lock] @ shut @ [Ctx_cancel, Mu_Unlock])
              | Some n \<Rightarrow>
                  (Returned p, [Mu_Lock] @ shut @ [Node_Stop, Node_Done, Ctx_cancel, Mu_Unlock])))"

subsection \<open>Registration with the external registry\<close>

text \<open>
  \<open>net.IP\<close> helpers as the Go library defines them: \<open>To4\<close> gives the four-byte form
  of an IPv4 or IPv4-mapped address and \<open>nil\<close> otherwise; \<open>IsLoopback\<close> tests for
  127.0.0.0/8 or ::1; \<open>String\<close> of an address with a four-byte form is dotted
  decimal (\<open>GetLocalIP\<close> calls it on such addresses only).
\<close>

definition To4 :: "IP \<Rightarrow> IP" where
  "To4 ip =
     (if length ip = 4 then ip
      else if length ip = 16 \<and> take 10 ip = replicate 10 0 \<and> ip ! 10 = 0xff \<and> ip ! 11 = 0xff
      then drop 12 ip
      else [])"

definition IsLoopback :: "IP \<Rightarrow> bool" where
  "IsLoopback ip =
     (if To4 ip \<noteq> [] then To4 ip ! 0 = 127 else ip = replicate 15 0 @ [1])"

definition digit :: "nat \<Rightarrow> char" where
  "digit d = char_of (48 + d)"

definition uitoa :: "8 word \<Rightarrow> string" where
  "uitoa b =
     (let n = unat b
      in if n < 10 then [digit n]
         else if n < 100 then [digit (n div 10), digit (n mod 10)]
         else [digit (n div 100), digit (n div 10 mod 10), digit (n mod 10)])"

definition IP_String :: "IP \<Rightarrow> string" where
  "IP_String ip =
     (case To4 ip of
        [a, b, c, d] \<Rightarrow> uitoa a @ ''.'' @ uitoa b @ ''.'' @ uitoa c @ ''.'' @ uitoa d
      | _ \<Rightarrow> ''?'')"

text \<open>
  \<open>GetLocalIP\<close>: the first interface address that is an \<open>IPNet\<close>, is not a
  loopback address and has a four-byte form; the empty string when there is none or
  the addresses cannot be listed.
\<close>

fun GetLocalIP_loop :: "Addr list \<Rightarrow> string" where
  "GetLocalIP_loop [] = []"
| "GetLocalIP_loop (IPNet ip # addrs) =
     (if \<not> IsLoopback ip \<and> To4 ip \<noteq> [] then IP_String ip else GetLocalIP_loop addrs)"
| "GetLocalIP_loop (OtherAddr # addrs) = GetLocalIP_loop addrs"

definition GetLocalIP :: "env \<Rightarrow> string" where
  "GetLocalIP env =
     (case InterfaceAddrs env of Inl err \<Rightarrow> [] | Inr addrs \<Rightarrow> GetLocalIP_loop addrs)"

record PfcpInfo =
  Ip :: string

text \<open>
  The JSON encoding of a \<open>PfcpInfo\<close>: one member \<open>ip\<close>. The strings that
  \<open>GetLocalIP\<close> returns hold digits and dots only, so nothing is escaped.
\<close>

definition json_Marshal :: "PfcpInfo \<Rightarrow> string" where
  \<open>json_Marshal i = ''{"ip":"'' @ Ip i @ ''"}''\<close>

definition requestURL :: string where
  "requestURL = ''http://upf-http:8081/v1/register/pcfp''"

definition PushPFCPInfoNew_request :: "env \<Rightarrow> request" where
  "PushPFCPInfoNew_request env =
     \<lparr> Method = ''POST'', URL = requestURL, ContentType = ''application/json'',
       Body = json_Marshal \<lparr>Ip = GetLocalIP env\<rparr> \<rparr>"

text \<open>
  The loop \<open>for !done\<close>: request number \<open>n\<close> is sent; an error is logged and followed
  by a pause of one second and the next request; the first request that returns without
  error ends the loop, whatever the status of the response. The loop has no bound, so
  the function is partial: \<open>None\<close> means that it never returns.
\<close>

partial_function (option) PushPFCPInfoNew_loop ::
  "env \<Rightarrow> request \<Rightarrow> nat \<Rightarrow> event list \<Rightarrow> event list option" where
  "PushPFCPInfoNew_loop env req n evs =
     (if isl (client_Do env n)
      then PushPFCPInfoNew_loop env req (Suc n)
             (evs @ [Client_Do req,
                     Log Error ''client: error making http request'' (Some (projl (client_Do env n))),
                     Sleep 1])
      else Some (evs @ [Client_Do req]))"

declare PushPFCPInfoNew_loop.simps [code]

text \<open>
  For stating what the loop does: the events of the failed request number \<open>j\<close>, and
  those of the first \<open>k\<close> requests when all of them fail.
\<close>

definition failed_request :: "env \<Rightarrow> request \<Rightarrow> nat \<Rightarrow> event list" where
  "failed_request env req j =
     [Client_Do req,
      Log Error ''client: error making http request'' (Some (projl (client_Do env j))),
      Sleep 1]"

definition failed_requests :: "env \<Rightarrow> request \<Rightarrow> nat \<Rightarrow> nat \<Rightarrow> event list" where
  "failed_requests env req n k = concat (map (failed_request env req) [n..<n + k])"

definition PushPFCPInfoNew_prints :: "event list" where
  "PushPFCPInfoNew_prints =
     [Print ''parham log : local ip = '', Print ''parham log : json encoded pfcpInfo'']"

text \<open>
  \<open>PushPFCPInfoNew\<close>: builds the request once and runs the loop. If the request cannot
  be built, the error is logged and setting the header on the \<open>nil\<close> request panics.
\<close>

definition PushPFCPInfoNew :: "env \<Rightarrow> (unit outcome \<times> event list) option" where
  "PushPFCPInfoNew env =
     (let req = PushPFCPInfoNew_request env;
          pre = PushPFCPInfoNew_prints
      in case http_NewRequest env (Method req) (URL req) of
           Some err \<Rightarrow>
             Some (Panicked, pre @ [Log Error ''client: could not create request'' (Some err)])
         | None \<Rightarrow>
             map_option (\<lambda>evs. (Returned (), evs)) (PushPFCPInfoNew_loop env req 0 pre))"

subsection \<open>Run\<close>

text \<open>
  The first part of \<open>Run\<close>, up to the call of \<open>PushPFCPInfoNew\<close>: the optional
  simulation (\<open>Returned None\<close> when \<open>Run\<close> returns after it), \<open>mustInit\<close>, the HTTP
  goroutine, the registration of the signal channel for \<open>os.Interrupt\<close> (SIGINT) and
  SIGTERM, and the signal goroutine.
\<close>

definition Run_setup :: "env \<Rightarrow> PFCPIface \<Rightarrow> PFCPIface option outcome \<times> event list" where
  "Run_setup env p =
     (if simulate_enable env \<and> \<not> simulate_keepGoing env
      then (Returned None, [Upf_sim])
      else andThen (Returned p, if simulate_enable env then [Upf_sim] else []) (\<lambda>p.
           andThen (mustInit env p) (\<lambda>p.
             (Returned (Some p),
              [Go HttpWorker, Signal_Notify SIGINT, Signal_Notify SIGTERM, Go SignalWorker,
               Print ''parham log : calling PushPFCPInfoNew'']))))"

text \<open>
  The body of the HTTP goroutine: an error of \<open>ListenAndServe\<close> other than
  \<open>ErrServerClosed\<close> ends the process.
\<close>

definition Run_httpWorker :: "env \<Rightarrow> unit outcome \<times> event list" where
  "Run_httpWorker env =
     (case http_ListenAndServe env of
        Some err \<Rightarrow>
          (if err \<noteq> ErrServerClosed
           then (Exited, [Log Fatal ''http server failed'' (Some err)])
           else (Returned (), [Log Info ''http server closed'' None]))
      | None \<Rightarrow> (Returned (), [Log Info ''http server closed'' None]))"

text \<open>
  The body of the signal goroutine once a signal has arrived on the channel: it logs
  the signal and calls \<open>Stop\<close>. A signal arrives on the channel when it was registered
  with \<open>signal.Notify\<close>.
\<close>

definition relayed :: "event list \<Rightarrow> signal \<Rightarrow> bool" where
  "relayed evs sg = (Signal_Notify sg \<in> set evs)"

definition Run_signalWorker :: "env \<Rightarrow> PFCPIface \<Rightarrow> signal \<Rightarrow> PFCPIface outcome \<times> event list" where
  "Run_signalWorker env p sg =
     andThen (Returned p, [Log Info ''System call received'' None]) (Stop env)"

text \<open>
  \<open>Run\<close> on its own goroutine: the first part, then the registration, then
  \<open>node.Serve\<close>. \<open>None\<close> means that \<open>Run\<close> never gets past the registration.
\<close>

definition Run :: "env \<Rightarrow> PFCPIface \<Rightarrow> (PFCPIface outcome \<times> event list) option" where
  "Run env p =
     (case Run_setup env p of
        (Returned None, evs) \<Rightarrow> Some (Returned p, evs)
      | (Returned (Some p'), evs) \<Rightarrow>
          (case PushPFCPInfoNew env of
             None \<Rightarrow> None
           | Some r \<Rightarrow>
               Some (andThen (Returned p', evs) (\<lambda>p'.
                     andThen r (\<lambda>_. (Returned p', [Node_Serve])))))
      | (Exited, evs) \<Rightarrow> Some (Exited, evs)
      | (Panicked, evs) \<Rightarrow> Some (Panicked, evs))"

section \<open>The session store (upf.go, interface SessionsStore)\<close>

text \<open>
  A session is indexed by its F-SEID and holds the rules negotiated with the peer; rules
  are represented by their identifiers.
\<close>

record PFCPSession =
  localSEID :: "64 word"
  pdrs :: "nat list"
  fars :: "nat list"
  qers :: "nat list"

datatype PFCPConn = PFCPConn string

type_synonym SessionsStore = "64 word \<rightharpoonup> PFCPSession"

definition PFCPSession_zero :: PFCPSession where
  "PFCPSession_zero = \<lparr>localSEID = 0, pdrs = [], fars = [], qers = []\<rparr>"

text \<open>
  Modelled from the spec: the sources declare the interface \<open>SessionsStore\<close> only, and
  no implementation of \<open>PutSession\<close> is among them. By the spec, Put inserts a new
  session or replaces an existing one keyed by F-SEID; when rules are to be pushed, it
  programs them into the backend before the store mutation is committed, and on
  backend failure the store is left unchanged and an error identifying the backend
  failure is returned. The first argument is the backend's programming call.
\<close>

definition PutSession ::
  "(PFCPSession \<Rightarrow> error option) \<Rightarrow> SessionsStore \<Rightarrow> PFCPSession \<Rightarrow> PFCPConn option \<Rightarrow> bool \<Rightarrow> 8 word
     \<Rightarrow> error option \<times> SessionsStore" where
  "PutSession program st session pConn pushPDR msgType =
     (if pushPDR
      then (case program session of
              Some err \<Rightarrow> (Some (ErrBackendFailure err), st)
            | None \<Rightarrow> (None, st(localSEID session \<mapsto> session)))
      else (None, st(localSEID session \<mapsto> session)))"

text \<open>
  Modelled from the spec: no implementation of \<open>GetSession\<close> is among the sources. By
  the spec, Get is a non-mutating read that returns the session and whether it was
  found.
\<close>

definition GetSession :: "SessionsStore \<Rightarrow> 64 word \<Rightarrow> PFCPSession \<times> bool" where
  "GetSession st fseid =
     (case st fseid of None \<Rightarrow> (PFCPSession_zero, False) | Some s \<Rightarrow> (s, True))"

section \<open>A concrete configuration and environment\<close>

text \<open>
  A software-pipeline deployment: the node identity resolves, both interfaces have an
  address, the durations parse, the registry refuses the first two requests and
  answers the third. The backend rejects the slice named \<open>bad\<close>.
\<close>

definition conf0 :: Conf where
  "conf0 =
     \<lparr> AccessIface = \<lparr>IfName = ''access''\<rparr>,
       CoreIface = \<lparr>IfName = ''core''\<rparr>,
       CPIface = \<lparr> Peers = [''smf''], UseFQDN = False, CPIfaceInfo.NodeID = ''upf.example'',
                   HTTPPort = [], CPIfaceInfo.Dnn = ''internet'',
                   CPIfaceInfo.EnableUeIPAlloc = True, UEIPPool = ''10.250.0.0/16'' \<rparr>,
       EnableP4rt = False,
       Conf.EnableEndMarker = False,
       Conf.EnableFlowMeasure = False,
       MaxReqRetries = 5,
       EnableHBTimer = True,
       ReadTimeout = 15,
       RespTimeout = ''2s'',
       HeartBeatInterval = ''5s'' \<rparr>"

definition env0 :: env where
  "env0 =
     \<lparr> dp_IsConnected = (\<lambda>dp ip. True),
       dp_AddSliceInfo =
         (\<lambda>dp u s. if SliceInfo.name s = ''bad'' then Some (ErrExternal ''rejected'') else None),
       FqdnHostname = Inr ''upf.example'',
       LookupHost =
         (\<lambda>h. if h = ''upf.example'' then Inr [''10.0.0.5'']
              else Inl (ErrExternal ''no such host'')),
       GetUnicastAddressFromInterface =
         (\<lambda>i. if i = ''access'' then Inr [10, 0, 1, 1]
              else if i = ''core'' then Inr [10, 0, 2, 1]
              else Inl (ErrExternal ''no such interface'')),
       ParseDuration =
         (\<lambda>s. if s = ''2s'' then Inr 2000000000
              else if s = ''5s'' then Inr 5000000000
              else Inl (ErrExternal ''invalid duration'')),
       NewIPPool =
         (\<lambda>c. if c = ''10.250.0.0/16'' then Inr (IPPool c) else Inl (ErrExternal ''invalid CIDR'')),
       simulate_enable = False,
       simulate_keepGoing = False,
       setupProm = None,
       http_ListenAndServe = Some ErrServerClosed,
       http_Shutdown = None,
       InterfaceAddrs = Inr [IPNet [127, 0, 0, 1], OtherAddr, IPNet [10, 0, 0, 5]],
       http_NewRequest = (\<lambda>m u. None),
       client_Do = (\<lambda>n. if n < 2 then Inl (ErrExternal ''connection refused'') else Inr 200) \<rparr>"

text \<open>The same environment with a registry that never answers.\<close>

definition env_down :: env where
  "env_down = env0\<lparr>client_Do := (\<lambda>n. Inl (ErrExternal ''connection refused''))\<rparr>"

text \<open>The runtime context and the handle that the configuration gives.\<close>

definition upf0 :: upf where
  "upf0 =
     \<lparr> EnableUeIPAlloc = True, EnableEndMarker = False, EnableFlowMeasure = False,
       accessIface = ''access'', coreIface = ''core'', ippoolCidr = ''10.250.0.0/16'',
       AccessIP = [10, 0, 1, 1], CoreIP = [10, 0, 2, 1], NodeID = ''10.0.0.5'',
       ippool = Some (IPPool ''10.250.0.0/16''), peers = [''smf''], Dnn = ''internet'',
       reportNotifyChan = \<lparr>capacity = 1024, buffer = []\<rparr>, sliceInfo = None,
       readTimeout = 15000000000, Hostname = ''upf.example'', datapath = bess,
       maxReqRetries = 5, respTimeout = 2000000000, enableHBTimer = True,
       hbInterval = 5000000000 \<rparr>"

definition iface0 :: PFCPIface where
  "iface0 =
     \<lparr> conf = conf0, node = None, fp = bess, upf = Some upf0, httpSrv = None,
       httpEndpoint = '':8080'', uc = None, nc = None \<rparr>"

text \<open>The handle after \<open>mustInit\<close>.\<close>

definition iface1 :: PFCPIface where
  "iface1 =
     iface0\<lparr> node := Some (PFCPNode (Some upf0)),
              httpSrv := Some \<lparr>Addr = '':8080'', ReadHeaderTimeout = 60000000000\<rparr>,
              uc := Some upfCollector, nc := Some PfcpNodeCollector \<rparr>"

text \<open>
  Variants of the configuration: an access interface that does not exist; a heartbeat
  interval that does not parse while the heartbeat timer is disabled; a response
  timeout that does not parse. A variant of the environment in which \<open>setupProm\<close>
  fails.
\<close>

definition conf_noaccess :: Conf where
  "conf_noaccess = conf0\<lparr>AccessIface := \<lparr>IfName = ''missing''\<rparr>\<rparr>"

definition conf_hb :: Conf where
  "conf_hb = conf0\<lparr>EnableHBTimer := False, HeartBeatInterval := ''soon''\<rparr>"

definition conf_badresp :: Conf where
  "conf_badresp = conf0\<lparr>RespTimeout := ''never''\<rparr>"

definition env_prom :: env where
  "env_prom = env0\<lparr>setupProm := Some (ErrExternal ''duplicate metrics collector registration attempted'')\<rparr>"




text \<open>An environment in which the HTTP server cannot listen.\<close>

definition env_httpfail :: env where
  "env_httpfail = env0\<lparr>http_ListenAndServe := Some (ErrExternal ''address already in use'')\<rparr>"

definition slice0 :: SliceInfo where
  "slice0 =
     \<lparr> SliceInfo.name = ''default'', uplinkMbr = 1000000, downlinkMbr = 2000000,
       ulBurstBytes = 12500, dlBurstBytes = 25000,
       ueResList = [\<lparr>UeResource.name = ''group1'', dnn = ''internet''\<rparr>] \<rparr>"

definition slice_bad :: SliceInfo where
  "slice_bad = slice0\<lparr>SliceInfo.name := ''bad''\<rparr>"

definition session0 :: PFCPSession where
  "session0 = \<lparr>localSEID = 42, pdrs = [1], fars = [1], qers = []\<rparr>"

text \<open>A store that holds one session, with another F-SEID.\<close>

definition store0 :: SessionsStore where
  "store0 = Map.empty(7 \<mapsto> \<lparr>localSEID = 7, pdrs = [3], fars = [3], qers = [3]\<rparr>)"

section \<open>Properties\<close>

subsection \<open>Sequencing\<close>

lemma andThen_Returned:
  "andThen r k = (Returned y, evs) \<Longrightarrow>
     \<exists>x e1 e2. r = (Returned x, e1) \<and> k x = (Returned y, e2) \<and> evs = e1 @ e2"
  by (auto simp: andThen_def split: prod.splits outcome.splits)

lemma andThen_Exited:
  "fst (andThen r k) = Exited \<longleftrightarrow>
     fst r = Exited \<or> (\<exists>x. fst r = Returned x \<and> fst (k x) = Exited)"
  by (auto simp: andThen_def split: prod.splits outcome.splits)

subsection \<open>What the blocks of NewUPF keep\<close>

lemma NewUPF_peers_keeps:
  "NewUPF_peers cfg u = (u', e) \<Longrightarrow>
     reportNotifyChan u' = reportNotifyChan u \<and> datapath u' = datapath u"
  by (auto simp: NewUPF_peers_def Let_def split: if_splits)

lemma NewUPF_addresses_keeps:
  "NewUPF_addresses env cfg u = (Some u', e) \<Longrightarrow>
     reportNotifyChan u' = reportNotifyChan u \<and> datapath u' = datapath u"
  by (auto simp: NewUPF_addresses_def split: if_splits sum.splits)

lemma NewUPF_respTimeout_keeps:
  "NewUPF_respTimeout env cfg u = (Returned u', e) \<Longrightarrow>
     reportNotifyChan u' = reportNotifyChan u \<and> datapath u' = datapath u"
  by (auto simp: NewUPF_respTimeout_def split: sum.splits)

lemma NewUPF_hbInterval_keeps:
  "NewUPF_hbInterval env cfg u = (Returned u', e) \<Longrightarrow>
     reportNotifyChan u' = reportNotifyChan u \<and> datapath u' = datapath u"
  by (auto simp: NewUPF_hbInterval_def split: if_splits sum.splits)

lemma NewUPF_ippool_keeps:
  "NewUPF_ippool env u = (Returned u', e) \<Longrightarrow>
     reportNotifyChan u' = reportNotifyChan u \<and> datapath u' = datapath u"
  by (auto simp: NewUPF_ippool_def split: if_splits sum.splits)

lemma NewUPF_literal_fields:
  "reportNotifyChan (NewUPF_literal cfg nodeID dp) = make_chan 1024"
  "datapath (NewUPF_literal cfg nodeID dp) = dp"
  by (simp_all add: NewUPF_literal_def)

lemma NewUPF_Some_steps:
  assumes "NewUPF env cfg dp = (Returned (Some u), evs)"
  obtains nodeID e0 u1 e1 u2 e2 u3 e3 u4 e4 e5 where
    "NewUPF_nodeID env cfg = (Returned nodeID, e0)"
    "NewUPF_peers cfg (NewUPF_literal cfg nodeID dp) = (u1, e1)"
    "NewUPF_addresses env cfg u1 = (Some u2, e2)"
    "NewUPF_respTimeout env cfg u2 = (Returned u3, e3)"
    "NewUPF_hbInterval env cfg u3 = (Returned u4, e4)"
    "NewUPF_ippool env u4 = (Returned u, e5)"
  using assms unfolding NewUPF_def
  by (auto dest!: andThen_Returned simp: NewUPF_wire_def split: prod.splits option.splits)

lemma NewUPF_Some:
  assumes "NewUPF env cfg dp = (Returned (Some u), evs)"
  shows "reportNotifyChan u = make_chan 1024 \<and> datapath u = dp"
proof -
  from assms obtain nodeID e0 u1 e1 u2 e2 u3 e3 u4 e4 e5 where
    p: "NewUPF_peers cfg (NewUPF_literal cfg nodeID dp) = (u1, e1)" and
    a: "NewUPF_addresses env cfg u1 = (Some u2, e2)" and
    t: "NewUPF_respTimeout env cfg u2 = (Returned u3, e3)" and
    h: "NewUPF_hbInterval env cfg u3 = (Returned u4, e4)" and
    i: "NewUPF_ippool env u4 = (Returned u, e5)"
    by (rule NewUPF_Some_steps)
  from NewUPF_peers_keeps [OF p] NewUPF_addresses_keeps [OF a]
    NewUPF_respTimeout_keeps [OF t] NewUPF_hbInterval_keeps [OF h] NewUPF_ippool_keeps [OF i]
  show ?thesis by (simp add: NewUPF_literal_fields)
qed

subsection \<open>What the methods of the handle keep\<close>








subsection \<open>Setup and shutdown\<close>

lemma mustInit_Returned:
  "mustInit env p = (Returned p', e) \<Longrightarrow>
     httpSrv p' \<noteq> None \<and> node p' \<noteq> None
     \<and> e = [Mu_Lock, New_PFCPNode, Setup_ConfigHandler, Setup_Prom, Mu_Unlock]"
  by (auto simp: mustInit_def Let_def split: option.splits)

lemma Run_setup_Some:
  assumes "Run_setup env p = (Returned (Some p'), evs)"
  shows "httpSrv p' \<noteq> None \<and> node p' \<noteq> None
     \<and> evs = (if simulate_enable env then [Upf_sim] else [])
             @ [Mu_Lock, New_PFCPNode, Setup_ConfigHandler, Setup_Prom, Mu_Unlock]
             @ [Go HttpWorker, Signal_Notify SIGINT, Signal_Notify SIGTERM, Go SignalWorker,
                Print ''parham log : calling PushPFCPInfoNew'']"
proof -
  from assms obtain e1 where m: "mustInit env p = (Returned p', e1)"
    and e: "evs = (if simulate_enable env then [Upf_sim] else []) @ e1
             @ [Go HttpWorker, Signal_Notify SIGINT, Signal_Notify SIGTERM, Go SignalWorker,
                Print ''parham log : calling PushPFCPInfoNew'']"
    by (auto simp: Run_setup_def split: if_splits dest!: andThen_Returned)
  from mustInit_Returned [OF m] e show ?thesis by simp
qed

lemma Stop_Returned:
  "fst (Stop env q) = Returned q' \<Longrightarrow>
     q' = q \<and> snd (Stop env q) =
       [Mu_Lock, Http_Shutdown]
       @ (case http_Shutdown env of
            Some err \<Rightarrow> [Log Error ''Failed to shutdown http: '' (Some err)]
          | None \<Rightarrow> [])
       @ [Node_Stop, Node_Done, Ctx_cancel, Mu_Unlock]"
  by (auto simp: Stop_def Let_def split: option.splits)

lemma Stop_not_Returned:
  "fst (Stop env q) \<noteq> Returned q \<Longrightarrow>
     Node_Stop \<notin> set (snd (Stop env q)) \<and> Node_Done \<notin> set (snd (Stop env q))"
  by (auto simp: Stop_def Let_def split: option.splits)

lemma Stop_initialised:
  "httpSrv q \<noteq> None \<Longrightarrow> node q \<noteq> None \<Longrightarrow> fst (Stop env q) = Returned q"
  by (auto simp: Stop_def Let_def split: option.splits)

subsection \<open>The address lookup of NewUPF\<close>

lemma NewUPF_nodeID_events:
  "NewUPF_nodeID env cfg = (Returned h, e) \<Longrightarrow> e = []"
  by (auto simp: NewUPF_nodeID_def andThen_def split: if_splits sum.splits list.splits)

lemma NewUPF_peers_events: "snd (NewUPF_peers cfg u) = []"
  by (simp add: NewUPF_peers_def Let_def)

lemma NewUPF_nil:
  assumes "NewUPF_nodeID env cfg = (Returned nodeID, e0)"
    and "\<not> EnableP4rt cfg"
    and "isl (GetUnicastAddressFromInterface env (IfName (AccessIface cfg)))
         \<or> isl (GetUnicastAddressFromInterface env (IfName (CoreIface cfg)))"
  shows "fst (NewUPF env cfg dp) = Returned None
         \<and> (\<exists>err. snd (NewUPF env cfg dp) = [Log Error [] (Some err)])"
proof -
  have e0: "e0 = []" using assms(1) by (rule NewUPF_nodeID_events)
  obtain u1 e1 where p: "NewUPF_peers cfg (NewUPF_literal cfg nodeID dp) = (u1, e1)"
    by (cases "NewUPF_peers cfg (NewUPF_literal cfg nodeID dp)")
  with NewUPF_peers_events [of cfg "NewUPF_literal cfg nodeID dp"] have e1: "e1 = []" by simp
  have "\<exists>err. NewUPF_addresses env cfg u1 = (None, [Log Error [] (Some err)])"
  proof (cases "GetUnicastAddressFromInterface env (IfName (AccessIface cfg))")
    case (Inl err)
    with assms(2) show ?thesis by (simp add: NewUPF_addresses_def)
  next
    case (Inr a)
    with assms(3) obtain err where
      "GetUnicastAddressFromInterface env (IfName (CoreIface cfg)) = Inl err"
      by (cases "GetUnicastAddressFromInterface env (IfName (CoreIface cfg))") auto
    with Inr assms(2) show ?thesis by (simp add: NewUPF_addresses_def)
  qed
  then obtain err where a: "NewUPF_addresses env cfg u1 = (None, [Log Error [] (Some err)])"
    by blast
  have n: "NewUPF env cfg dp = (Returned None, [Log Error [] (Some err)])"
    using assms(1) e0 p e1 a by (simp add: NewUPF_def andThen_def)
  then show ?thesis by simp
qed

subsection \<open>Where NewUPF ends the process\<close>

lemma NewUPF_nodeID_Exited:
  "fst (NewUPF_nodeID env cfg) = Exited \<longleftrightarrow>
     (UseFQDN (CPIface cfg) \<and> CPIfaceInfo.NodeID (CPIface cfg) = [] \<and> isl (FqdnHostname env))
     \<or> (nodeID_to_resolve env cfg \<noteq> [] \<and> isl (LookupHost env (nodeID_to_resolve env cfg)))"
  by (auto simp: NewUPF_nodeID_def nodeID_to_resolve_def andThen_def
      split: sum.splits list.splits if_splits)

lemma NewUPF_timers_Exited:
  "fst (andThen (NewUPF_respTimeout env cfg u) (\<lambda>u.
        andThen (NewUPF_hbInterval env cfg u) (\<lambda>u.
        andThen (NewUPF_ippool env u) NewUPF_wire))) = Exited \<longleftrightarrow>
     isl (ParseDuration env (RespTimeout cfg))
     \<or> (enableHBTimer u \<and> HeartBeatInterval cfg \<noteq> [] \<and> isl (ParseDuration env (HeartBeatInterval cfg)))
     \<or> (upf.EnableUeIPAlloc u \<and> isl (NewIPPool env (ippoolCidr u)))"
  by (auto simp: NewUPF_respTimeout_def NewUPF_hbInterval_def NewUPF_ippool_def NewUPF_wire_def
      andThen_def split: sum.splits if_splits)

lemma NewUPF_peers_switches:
  "NewUPF_peers cfg u = (u', e) \<Longrightarrow>
     enableHBTimer u' = enableHBTimer u \<and> upf.EnableUeIPAlloc u' = upf.EnableUeIPAlloc u
     \<and> ippoolCidr u' = ippoolCidr u"
  by (auto simp: NewUPF_peers_def Let_def split: if_splits)

lemma NewUPF_addresses_switches:
  "NewUPF_addresses env cfg u = (Some u', e) \<Longrightarrow>
     enableHBTimer u' = enableHBTimer u \<and> upf.EnableUeIPAlloc u' = upf.EnableUeIPAlloc u
     \<and> ippoolCidr u' = ippoolCidr u"
  by (auto simp: NewUPF_addresses_def split: if_splits sum.splits)

lemma NewUPF_addresses_Some:
  "(\<exists>u' e. NewUPF_addresses env cfg u = (Some u', e)) \<longleftrightarrow>
     EnableP4rt cfg
     \<or> (\<not> isl (GetUnicastAddressFromInterface env (IfName (AccessIface cfg)))
        \<and> \<not> isl (GetUnicastAddressFromInterface env (IfName (CoreIface cfg))))"
  by (auto simp: NewUPF_addresses_def split: if_splits sum.splits)

lemma NewUPF_literal_switches:
  "enableHBTimer (NewUPF_literal cfg nodeID dp) = EnableHBTimer cfg"
  "upf.EnableUeIPAlloc (NewUPF_literal cfg nodeID dp) = CPIfaceInfo.EnableUeIPAlloc (CPIface cfg)"
  "ippoolCidr (NewUPF_literal cfg nodeID dp) = UEIPPool (CPIface cfg)"
  by (simp_all add: NewUPF_literal_def)

lemma NewUPF_Exited:
  "fst (NewUPF env cfg dp) = Exited \<longleftrightarrow>
     fst (NewUPF_nodeID env cfg) = Exited
     \<or> ((\<exists>h. fst (NewUPF_nodeID env cfg) = Returned h)
        \<and> (EnableP4rt cfg
           \<or> (\<not> isl (GetUnicastAddressFromInterface env (IfName (AccessIface cfg)))
              \<and> \<not> isl (GetUnicastAddressFromInterface env (IfName (CoreIface cfg)))))
        \<and> (isl (ParseDuration env (RespTimeout cfg))
           \<or> (EnableHBTimer cfg \<and> HeartBeatInterval cfg \<noteq> []
              \<and> isl (ParseDuration env (HeartBeatInterval cfg)))
           \<or> (CPIfaceInfo.EnableUeIPAlloc (CPIface cfg)
              \<and> isl (NewIPPool env (UEIPPool (CPIface cfg))))))"
proof -
  have k: "fst (case NewUPF_peers cfg (NewUPF_literal cfg h dp) of
         (u, evs) \<Rightarrow>
           (case NewUPF_addresses env cfg u of
              (None, evs') \<Rightarrow> (Returned None, evs @ evs')
            | (Some u', evs') \<Rightarrow>
                andThen (Returned u', evs @ evs') (\<lambda>u.
                andThen (NewUPF_respTimeout env cfg u) (\<lambda>u.
                andThen (NewUPF_hbInterval env cfg u) (\<lambda>u.
                andThen (NewUPF_ippool env u) NewUPF_wire))))) = Exited \<longleftrightarrow>
     (EnableP4rt cfg
           \<or> (\<not> isl (GetUnicastAddressFromInterface env (IfName (AccessIface cfg)))
              \<and> \<not> isl (GetUnicastAddressFromInterface env (IfName (CoreIface cfg)))))
        \<and> (isl (ParseDuration env (RespTimeout cfg))
           \<or> (EnableHBTimer cfg \<and> HeartBeatInterval cfg \<noteq> []
              \<and> isl (ParseDuration env (HeartBeatInterval cfg)))
           \<or> (CPIfaceInfo.EnableUeIPAlloc (CPIface cfg)
              \<and> isl (NewIPPool env (UEIPPool (CPIface cfg)))))" for h
  proof -
    obtain u1 e1 where p: "NewUPF_peers cfg (NewUPF_literal cfg h dp) = (u1, e1)"
      by (cases "NewUPF_peers cfg (NewUPF_literal cfg h dp)")
    obtain r2 e2 where a: "NewUPF_addresses env cfg u1 = (r2, e2)"
      by (cases "NewUPF_addresses env cfg u1")
    show ?thesis
    proof (cases r2)
      case None
      with a NewUPF_addresses_Some [of env cfg u1] p show ?thesis by auto
    next
      case (Some u2)
      with a NewUPF_addresses_Some [of env cfg u1] have ok: "EnableP4rt cfg
           \<or> (\<not> isl (GetUnicastAddressFromInterface env (IfName (AccessIface cfg)))
              \<and> \<not> isl (GetUnicastAddressFromInterface env (IfName (CoreIface cfg))))" by blast
      from NewUPF_peers_switches [OF p] NewUPF_addresses_switches [OF a [unfolded Some]]
      have sw: "enableHBTimer u2 = EnableHBTimer cfg"
        "upf.EnableUeIPAlloc u2 = CPIfaceInfo.EnableUeIPAlloc (CPIface cfg)"
        "ippoolCidr u2 = UEIPPool (CPIface cfg)"
        by (simp_all add: NewUPF_literal_switches)
      have "fst (andThen (Returned u2, e1 @ e2) (\<lambda>u.
                andThen (NewUPF_respTimeout env cfg u) (\<lambda>u.
                andThen (NewUPF_hbInterval env cfg u) (\<lambda>u.
                andThen (NewUPF_ippool env u) NewUPF_wire)))) = Exited \<longleftrightarrow>
            fst (andThen (NewUPF_respTimeout env cfg u2) (\<lambda>u.
                andThen (NewUPF_hbInterval env cfg u) (\<lambda>u.
                andThen (NewUPF_ippool env u) NewUPF_wire))) = Exited"
        by (simp add: andThen_Exited)
      with p a Some ok sw show ?thesis by (simp add: NewUPF_timers_Exited)
    qed
  qed
  show ?thesis
    unfolding NewUPF_def andThen_Exited [of "NewUPF_nodeID env cfg"] k by blast
qed

lemma NewUPF_nodeID_Returned:
  "(\<exists>h. fst (NewUPF_nodeID env cfg) = Returned h) \<longleftrightarrow>
     \<not> (UseFQDN (CPIface cfg) \<and> CPIfaceInfo.NodeID (CPIface cfg) = [] \<and> isl (FqdnHostname env))
     \<and> (nodeID_to_resolve env cfg = []
        \<or> (\<exists>h hs. LookupHost env (nodeID_to_resolve env cfg) = Inr (h # hs)))"
  by (auto simp: NewUPF_nodeID_def nodeID_to_resolve_def andThen_def
      split: sum.splits list.splits if_splits)

lemma mustInit_Exited: "fst (mustInit env p) = Exited \<longleftrightarrow> setupProm env \<noteq> None"
  by (auto simp: mustInit_def Let_def split: option.splits)

lemma Run_httpWorker_Exited:
  "fst (Run_httpWorker env) = Exited \<longleftrightarrow>
     (\<exists>err. http_ListenAndServe env = Some err \<and> err \<noteq> ErrServerClosed)"
  by (auto simp: Run_httpWorker_def split: option.splits)

lemma Stop_not_Exited: "fst (Stop env p) \<noteq> Exited"
  by (auto simp: Stop_def Let_def split: option.splits)

lemma Run_signalWorker_not_Exited: "fst (Run_signalWorker env p sg) \<noteq> Exited"
  using Stop_not_Exited [of env p] by (simp add: Run_signalWorker_def andThen_Exited)

lemma PushPFCPInfoNew_not_Exited: "PushPFCPInfoNew env = Some r \<Longrightarrow> fst r \<noteq> Exited"
  by (auto simp: PushPFCPInfoNew_def Let_def split: option.splits)

subsection \<open>The registration loop\<close>

lemma PushPFCPInfoNew_loop_fail:
  "isl (client_Do env n) \<Longrightarrow>
     PushPFCPInfoNew_loop env req n evs =
       PushPFCPInfoNew_loop env req (Suc n) (evs @ failed_request env req n)"
  by (subst PushPFCPInfoNew_loop.simps) (simp add: failed_request_def)

lemma PushPFCPInfoNew_loop_ok:
  "\<not> isl (client_Do env n) \<Longrightarrow> PushPFCPInfoNew_loop env req n evs = Some (evs @ [Client_Do req])"
  by (subst PushPFCPInfoNew_loop.simps) simp

lemma PushPFCPInfoNew_loop_first_success:
  "\<not> isl (client_Do env (n + d)) \<Longrightarrow> (\<forall>j<d. isl (client_Do env (n + j))) \<Longrightarrow>
     PushPFCPInfoNew_loop env req n evs =
       Some (evs @ failed_requests env req n d @ [Client_Do req])"
proof (induction d arbitrary: n evs)
  case 0
  then show ?case by (simp add: PushPFCPInfoNew_loop_ok failed_requests_def)
next
  case (Suc d)
  from Suc.prems(2) have f: "isl (client_Do env n)" by (metis add.right_neutral zero_less_Suc)
  have ok: "\<not> isl (client_Do env (Suc n + d))" using Suc.prems(1) by simp
  have fl: "\<forall>j<d. isl (client_Do env (Suc n + j))"
  proof (intro allI impI)
    fix j assume "j < d"
    then have "Suc j < Suc d" by simp
    with Suc.prems(2) have "isl (client_Do env (n + Suc j))" by blast
    then show "isl (client_Do env (Suc n + j))" by simp
  qed
  have "failed_requests env req n (Suc d) = failed_request env req n @ failed_requests env req (Suc n) d"
  proof -
    have "[n..<n + Suc d] = n # [Suc n..<Suc n + d]" by (subst upt_rec) simp
    then show ?thesis by (simp add: failed_requests_def)
  qed
  with Suc.IH [OF ok fl] f show ?case by (simp add: PushPFCPInfoNew_loop_fail)
qed

lemma PushPFCPInfoNew_loop_Some:
  assumes "PushPFCPInfoNew_loop env req n evs = Some y"
  shows "\<exists>k\<ge>n. \<not> isl (client_Do env k)"
proof (rule PushPFCPInfoNew_loop.raw_induct
    [where P = "\<lambda>env req n evs y. \<exists>k\<ge>n. \<not> isl (client_Do env k)", OF _ assms], goal_cases)
  case (1 lp env req n evs y)
  show ?case
  proof (cases "isl (client_Do env n)")
    case True
    with 1(2) have "lp env req (Suc n)
        (evs @ [Client_Do req,
                Log Error ''client: error making http request'' (Some (projl (client_Do env n))),
                Sleep 1]) = Some y" by simp
    from 1(1) [OF this] obtain k where "k \<ge> Suc n" "\<not> isl (client_Do env k)" by auto
    then show ?thesis by (auto intro: exI [of _ k])
  next
    case False
    then show ?thesis by auto
  qed
qed

lemma PushPFCPInfoNew_loop_None:
  "(\<forall>k. isl (client_Do env k)) \<Longrightarrow> PushPFCPInfoNew_loop env req n evs = None"
  using PushPFCPInfoNew_loop_Some [of env req n evs] by (cases "PushPFCPInfoNew_loop env req n evs") auto

lemma PushPFCPInfoNew_loop_returns_iff:
  "PushPFCPInfoNew_loop env req 0 evs \<noteq> None \<longleftrightarrow> (\<exists>k. \<not> isl (client_Do env k))"
proof
  assume "PushPFCPInfoNew_loop env req 0 evs \<noteq> None"
  then show "\<exists>k. \<not> isl (client_Do env k)" using PushPFCPInfoNew_loop_Some [of env req 0 evs] by auto
next
  assume "\<exists>k. \<not> isl (client_Do env k)"
  then obtain k where k: "\<not> isl (client_Do env k)" ..
  define m where "m = (LEAST k. \<not> isl (client_Do env k))"
  have 1: "\<not> isl (client_Do env (0 + m))" unfolding m_def using k by (simp add: LeastI [of "\<lambda>k. \<not> isl (client_Do env k)" k])
  have 2: "\<forall>j<m. isl (client_Do env (0 + j))" unfolding m_def using not_less_Least by auto
  from PushPFCPInfoNew_loop_first_success [OF 1 2] show "PushPFCPInfoNew_loop env req 0 evs \<noteq> None" by simp
qed

lemma PushPFCPInfoNew_None_iff:
  assumes "http_NewRequest env ''POST'' requestURL = None"
  shows "PushPFCPInfoNew env = None \<longleftrightarrow> (\<forall>k. isl (client_Do env k))"
  using assms
    PushPFCPInfoNew_loop_returns_iff [of env "PushPFCPInfoNew_request env" PushPFCPInfoNew_prints]
  by (auto simp: PushPFCPInfoNew_def PushPFCPInfoNew_request_def Let_def)

lemma PushPFCPInfoNew_first_success:
  assumes "http_NewRequest env ''POST'' requestURL = None"
    and "\<not> isl (client_Do env k)" and "\<forall>j<k. isl (client_Do env j)"
  shows "PushPFCPInfoNew env =
           Some (Returned (),
                 PushPFCPInfoNew_prints @ failed_requests env (PushPFCPInfoNew_request env) 0 k
                   @ [Client_Do (PushPFCPInfoNew_request env)])"
proof -
  have m: "Method (PushPFCPInfoNew_request env) = ''POST''" "URL (PushPFCPInfoNew_request env) = requestURL"
    by (simp_all add: PushPFCPInfoNew_request_def)
  from assms(2,3) have
    "PushPFCPInfoNew_loop env (PushPFCPInfoNew_request env) 0 PushPFCPInfoNew_prints =
       Some (PushPFCPInfoNew_prints @ failed_requests env (PushPFCPInfoNew_request env) 0 k
               @ [Client_Do (PushPFCPInfoNew_request env)])"
    by (intro PushPFCPInfoNew_loop_first_success) simp_all
  with assms(1) m show ?thesis by (simp add: PushPFCPInfoNew_def Let_def)
qed

lemma PushPFCPInfoNew_Some:
  assumes "http_NewRequest env ''POST'' requestURL = None"
    and "PushPFCPInfoNew env = Some r"
  shows "\<exists>evs. r = (Returned (), evs @ [Client_Do (PushPFCPInfoNew_request env)])"
proof -
  from assms PushPFCPInfoNew_None_iff [OF assms(1)] obtain k where k: "\<not> isl (client_Do env k)"
    by auto
  define m where "m = (LEAST k. \<not> isl (client_Do env k))"
  have 1: "\<not> isl (client_Do env m)"
    unfolding m_def using k by (simp add: LeastI [of "\<lambda>k. \<not> isl (client_Do env k)" k])
  have 2: "\<forall>j<m. isl (client_Do env j)" unfolding m_def using not_less_Least by auto
  from PushPFCPInfoNew_first_success [OF assms(1) 1 2] assms(2)
  have "r = (Returned (), (PushPFCPInfoNew_prints @ failed_requests env (PushPFCPInfoNew_request env) 0 m)
              @ [Client_Do (PushPFCPInfoNew_request env)])" by simp
  then show ?thesis by blast
qed

subsection \<open>The concrete configuration\<close>

lemma NewUPF_env0: "NewUPF env0 conf0 bess = (Returned (Some upf0), [Dp_SetUpfInfo bess, Print ''upf info :'', Print ''dnn = '', Print ''AccessIP = '',
       Print ''CoreIP = '', Print ''nodeID = ''])"
  by (simp add: NewUPF_def andThen_def NewUPF_nodeID_def NewUPF_literal_def NewUPF_peers_def
     NewUPF_addresses_def NewUPF_respTimeout_def NewUPF_hbInterval_def NewUPF_ippool_def NewUPF_wire_def
     env0_def conf0_def upf0_def make_chan_def)

lemma NewPFCPIface_env0:
  "NewPFCPIface env0 conf0 =
     (Returned iface0,
      [Dp_SetUpfInfo bess, Print ''upf info :'', Print ''dnn = '', Print ''AccessIP = '',
       Print ''CoreIP = '', Print ''nodeID = ''])"
proof -
  have c: "EnableP4rt conf0 = False" "HTTPPort (CPIface conf0) = []"
    by (simp_all add: conf0_def)
  show ?thesis
    by (simp add: NewPFCPIface_def c NewUPF_env0 andThen_def iface0_def)
qed

lemma mustInit_env0:
  "mustInit env0 iface0 =
     (Returned iface1, [Mu_Lock, New_PFCPNode, Setup_ConfigHandler, Setup_Prom, Mu_Unlock])"
  by (simp add: mustInit_def env0_def iface0_def iface1_def)


lemma Run_setup_env0:
  "Run_setup env0 iface0 =
     (Returned (Some iface1),
      [Mu_Lock, New_PFCPNode, Setup_ConfigHandler, Setup_Prom, Mu_Unlock,
       Go HttpWorker, Signal_Notify SIGINT, Signal_Notify SIGTERM, Go SignalWorker,
       Print ''parham log : calling PushPFCPInfoNew''])"
proof -
  have s: "simulate_enable env0 = False" by (simp add: env0_def)
  show ?thesis by (simp add: Run_setup_def s mustInit_env0 andThen_def)
qed

lemma env_down_facts:
  "simulate_enable env_down = False" "setupProm env_down = None"
  "http_NewRequest env_down m u = None" "isl (client_Do env_down k)"
  "mustInit env_down = mustInit env0"
  by (simp_all add: env_down_def env0_def mustInit_def fun_eq_iff)

lemma Run_setup_env_down:
  "Run_setup env_down iface0 = Run_setup env0 iface0"
  by (simp add: Run_setup_def env_down_facts env0_def)



lemma NewUPF_nodeID_conf_noaccess:
  "NewUPF_nodeID env0 conf_noaccess = (Returned ''10.0.0.5'', [])"
  by (simp add: NewUPF_nodeID_def andThen_def env0_def conf_noaccess_def conf0_def)

lemma NewUPF_conf_hb:
  "fst (NewUPF env0 conf_hb bess) = Returned (Some (upf0\<lparr>enableHBTimer := False, hbInterval := 0\<rparr>))"
  by (simp add: NewUPF_def andThen_def NewUPF_nodeID_def NewUPF_literal_def NewUPF_peers_def
     NewUPF_addresses_def NewUPF_respTimeout_def NewUPF_hbInterval_def NewUPF_ippool_def NewUPF_wire_def
     env0_def conf_hb_def conf0_def upf0_def make_chan_def)

lemma NewPFCPIface_env_prom:
  "fst (NewPFCPIface env_prom conf0) = Returned iface0"
proof -
  have "NewUPF env_prom conf0 bess = NewUPF env0 conf0 bess"
    unfolding NewUPF_env0
    by (simp add: NewUPF_def andThen_def NewUPF_nodeID_def NewUPF_literal_def NewUPF_peers_def
     NewUPF_addresses_def NewUPF_respTimeout_def NewUPF_hbInterval_def NewUPF_ippool_def NewUPF_wire_def
     env_prom_def env0_def conf0_def upf0_def make_chan_def)
  moreover have c: "EnableP4rt conf0 = False" "HTTPPort (CPIface conf0) = []"
    by (simp_all add: conf0_def)
  ultimately show ?thesis
    by (simp add: NewPFCPIface_def NewUPF_env0 andThen_def iface0_def)
qed

subsection \<open>Construction, registration, panics\<close>





lemma PushPFCPInfoNew_Some_least:
  assumes "http_NewRequest env ''POST'' requestURL = None"
    and "PushPFCPInfoNew env = Some r"
  shows "\<exists>m. \<not> isl (client_Do env m) \<and> (\<forall>j<m. isl (client_Do env j))
           \<and> r = (Returned (),
                   PushPFCPInfoNew_prints @ failed_requests env (PushPFCPInfoNew_request env) 0 m
                     @ [Client_Do (PushPFCPInfoNew_request env)])"
proof -
  from assms PushPFCPInfoNew_None_iff [OF assms(1)] obtain k where k: "\<not> isl (client_Do env k)"
    by auto
  define m where "m = (LEAST k. \<not> isl (client_Do env k))"
  have 1: "\<not> isl (client_Do env m)"
    unfolding m_def using k by (simp add: LeastI [of "\<lambda>k. \<not> isl (client_Do env k)" k])
  have 2: "\<forall>j<m. isl (client_Do env j)" unfolding m_def using not_less_Least by auto
  from PushPFCPInfoNew_first_success [OF assms(1) 1 2] assms(2)
  have "r = (Returned (), PushPFCPInfoNew_prints @ failed_requests env (PushPFCPInfoNew_request env) 0 m
              @ [Client_Do (PushPFCPInfoNew_request env)])" by simp
  with 1 2 show ?thesis by blast
qed

lemma mustInit_no_Serve: "Node_Serve \<notin> set (snd (mustInit env p))"
  by (cases "setupProm env") (simp_all add: mustInit_def Let_def)

lemma Run_setup_no_Serve: "Node_Serve \<notin> set (snd (Run_setup env p))"
proof (cases "mustInit env p")
  case (Pair o1 e1)
  with mustInit_no_Serve [of env p] have "Node_Serve \<notin> set e1" by simp
  with Pair show ?thesis
    by (cases o1) (simp_all add: Run_setup_def andThen_def)
qed

lemma Run_proceeds:
  assumes "http_NewRequest env ''POST'' requestURL = None"
    and "Run_setup env p = (Returned (Some p'), evs)"
    and "\<not> isl (client_Do env k)" and "\<forall>j<k. isl (client_Do env j)"
  shows "Run env p =
           Some (Returned p',
                 evs @ PushPFCPInfoNew_prints
                   @ failed_requests env (PushPFCPInfoNew_request env) 0 k
                   @ [Client_Do (PushPFCPInfoNew_request env), Node_Serve])"
  using assms(2) PushPFCPInfoNew_first_success [OF assms(1,3,4)]
  by (simp add: Run_def andThen_def)

lemma Run_serves:
  assumes n: "http_NewRequest env ''POST'' requestURL = None"
    and r: "Run env p = Some (out, tr)" and s: "Node_Serve \<in> set tr"
  shows "\<exists>m. \<not> isl (client_Do env m) \<and> (\<forall>j<m. isl (client_Do env j))
           \<and> tr = (if simulate_enable env then [Upf_sim] else [])
                  @ [Mu_Lock, New_PFCPNode, Setup_ConfigHandler, Setup_Prom, Mu_Unlock,
                     Go HttpWorker, Signal_Notify SIGINT, Signal_Notify SIGTERM, Go SignalWorker,
                     Print ''parham log : calling PushPFCPInfoNew'']
                  @ PushPFCPInfoNew_prints
                  @ failed_requests env (PushPFCPInfoNew_request env) 0 m
                  @ [Client_Do (PushPFCPInfoNew_request env), Node_Serve]"
proof -
  obtain o1 evs where st: "Run_setup env p = (o1, evs)" by (cases "Run_setup env p")
  with Run_setup_no_Serve [of env p] have ns: "Node_Serve \<notin> set evs" by simp
  from st r s ns obtain p' where o1: "o1 = Returned (Some p')"
    by (auto simp: Run_def split: outcome.splits option.splits)
  with st have st': "Run_setup env p = (Returned (Some p'), evs)" by simp
  from st' r obtain r' where r': "PushPFCPInfoNew env = Some r'"
    by (auto simp: Run_def split: option.splits)
  from PushPFCPInfoNew_Some_least [OF n r'] obtain m where
    m: "\<not> isl (client_Do env m)" "\<forall>j<m. isl (client_Do env j)" by blast
  from Run_proceeds [OF n st' m] r have
    "tr = evs @ PushPFCPInfoNew_prints @ failed_requests env (PushPFCPInfoNew_request env) 0 m
            @ [Client_Do (PushPFCPInfoNew_request env), Node_Serve]" by simp
  moreover from Run_setup_Some [OF st'] have
    "evs = (if simulate_enable env then [Upf_sim] else [])
             @ [Mu_Lock, New_PFCPNode, Setup_ConfigHandler, Setup_Prom, Mu_Unlock]
             @ [Go HttpWorker, Signal_Notify SIGINT, Signal_Notify SIGTERM, Go SignalWorker,
                Print ''parham log : calling PushPFCPInfoNew'']" by blast
  ultimately have
    "tr = (if simulate_enable env then [Upf_sim] else [])
                  @ [Mu_Lock, New_PFCPNode, Setup_ConfigHandler, Setup_Prom, Mu_Unlock,
                     Go HttpWorker, Signal_Notify SIGINT, Signal_Notify SIGTERM, Go SignalWorker,
                     Print ''parham log : calling PushPFCPInfoNew'']
                  @ PushPFCPInfoNew_prints
                  @ failed_requests env (PushPFCPInfoNew_request env) 0 m
                  @ [Client_Do (PushPFCPInfoNew_request env), Node_Serve]" by simp
  with m show ?thesis by blast
qed

lemma andThen_Panicked:
  "fst (andThen r k) = Panicked \<longleftrightarrow>
     fst r = Panicked \<or> (\<exists>x. fst r = Returned x \<and> fst (k x) = Panicked)"
  by (auto simp: andThen_def split: prod.splits outcome.splits)

lemma NewUPF_nodeID_Panicked:
  "fst (NewUPF_nodeID env cfg) = Panicked \<longleftrightarrow>
     nodeID_to_resolve env cfg \<noteq> [] \<and> LookupHost env (nodeID_to_resolve env cfg) = Inr []"
  by (auto simp: NewUPF_nodeID_def nodeID_to_resolve_def andThen_def
      split: sum.splits list.splits if_splits)

lemma NewUPF_timers_not_Panicked:
  "fst (andThen (NewUPF_respTimeout env cfg u) (\<lambda>u.
        andThen (NewUPF_hbInterval env cfg u) (\<lambda>u.
        andThen (NewUPF_ippool env u) NewUPF_wire))) \<noteq> Panicked"
  by (auto simp: NewUPF_respTimeout_def NewUPF_hbInterval_def NewUPF_ippool_def NewUPF_wire_def
      andThen_def split: sum.splits if_splits)

lemma NewUPF_Panicked:
  "fst (NewUPF env cfg dp) = Panicked \<longleftrightarrow>
     nodeID_to_resolve env cfg \<noteq> [] \<and> LookupHost env (nodeID_to_resolve env cfg) = Inr []"
proof -
  have k: "fst (case NewUPF_peers cfg (NewUPF_literal cfg h dp) of
         (u, evs) \<Rightarrow>
           (case NewUPF_addresses env cfg u of
              (None, evs') \<Rightarrow> (Returned None, evs @ evs')
            | (Some u', evs') \<Rightarrow>
                andThen (Returned u', evs @ evs') (\<lambda>u.
                andThen (NewUPF_respTimeout env cfg u) (\<lambda>u.
                andThen (NewUPF_hbInterval env cfg u) (\<lambda>u.
                andThen (NewUPF_ippool env u) NewUPF_wire))))) \<noteq> Panicked" for h
  proof -
    obtain u1 e1 where p: "NewUPF_peers cfg (NewUPF_literal cfg h dp) = (u1, e1)"
      by (cases "NewUPF_peers cfg (NewUPF_literal cfg h dp)")
    obtain r2 e2 where a: "NewUPF_addresses env cfg u1 = (r2, e2)"
      by (cases "NewUPF_addresses env cfg u1")
    show ?thesis
    proof (cases r2)
      case None
      with p a show ?thesis by simp
    next
      case (Some u2)
      with p a NewUPF_timers_not_Panicked [of env cfg u2] show ?thesis
        by (simp add: andThen_Panicked)
    qed
  qed
  show ?thesis
    unfolding NewUPF_def andThen_Panicked [of "NewUPF_nodeID env cfg"] NewUPF_nodeID_Panicked
    using k by blast
qed

lemma mustInit_not_Panicked: "fst (mustInit env p) \<noteq> Panicked"
  by (cases "setupProm env") (simp_all add: mustInit_def Let_def)

lemma Run_httpWorker_not_Panicked: "fst (Run_httpWorker env) \<noteq> Panicked"
  by (auto simp: Run_httpWorker_def split: option.splits)

lemma Run_httpWorker_Exited_events:
  "fst (Run_httpWorker env) = Exited \<Longrightarrow>
     snd (Run_httpWorker env) = [Log Fatal ''http server failed'' (http_ListenAndServe env)]"
  by (auto simp: Run_httpWorker_def split: option.splits if_splits)

lemma Stop_Panicked: "fst (Stop env p) = Panicked \<longleftrightarrow> httpSrv p = None \<or> node p = None"
  by (auto simp: Stop_def Let_def split: option.splits)

lemma Stop_Returned_iff: "fst (Stop env p) = Returned p \<longleftrightarrow> httpSrv p \<noteq> None \<and> node p \<noteq> None"
  by (auto simp: Stop_def Let_def split: option.splits)

lemma Run_signalWorker_Panicked:
  "fst (Run_signalWorker env p sg) = Panicked \<longleftrightarrow> httpSrv p = None \<or> node p = None"
  using Stop_Panicked [of env p] by (simp add: Run_signalWorker_def andThen_Panicked)

lemma PushPFCPInfoNew_Panicked:
  "PushPFCPInfoNew env = Some r \<Longrightarrow>
     (fst r = Panicked \<longleftrightarrow> http_NewRequest env ''POST'' requestURL \<noteq> None)"
  by (auto simp: PushPFCPInfoNew_def PushPFCPInfoNew_request_def Let_def split: option.splits)

lemma addSliceInfo_no_Fatal: "Log Fatal m e \<notin> set (snd (snd (addSliceInfo env u si)))"
  by (cases si) (simp_all add: addSliceInfo_def Let_def)

lemma addSliceInfo_result:
  "fst (addSliceInfo env u si) =
     (case si of
        None \<Rightarrow> Some (ErrInvalidArgument ''sliceInfo'' None)
      | Some s \<Rightarrow> dp_AddSliceInfo env (datapath u) (u\<lparr>sliceInfo := Some s\<rparr>) s)"
  by (cases si) (simp_all add: addSliceInfo_def Let_def)

lemma Stop_env0_iface0: "Stop env0 iface0 = (Panicked, [Mu_Lock, Ctx_cancel, Mu_Unlock])"
  by (simp add: Stop_def iface0_def)

lemma Run_httpWorker_env_httpfail:
  "Run_httpWorker env_httpfail =
     (Exited, [Log Fatal ''http server failed'' (Some (ErrExternal ''address already in use''))])"
  by (simp add: Run_httpWorker_def env_httpfail_def)

lemma NewPFCPIface_Exited:
  "fst (NewPFCPIface env cfg) = Exited \<longleftrightarrow>
     fst (NewUPF env cfg (if EnableP4rt cfg then UP4 else bess)) = Exited"
  by (simp add: NewPFCPIface_def Let_def andThen_Exited)

lemma NewPFCPIface_Panicked:
  "fst (NewPFCPIface env cfg) = Panicked \<longleftrightarrow>
     fst (NewUPF env cfg (if EnableP4rt cfg then UP4 else bess)) = Panicked"
  by (simp add: NewPFCPIface_def Let_def andThen_Panicked)

lemma Run_setup_outcome:
  "fst (Run_setup env p) =
     (if simulate_enable env \<and> \<not> simulate_keepGoing env then Returned None
      else if setupProm env \<noteq> None then Exited
      else Returned (Some (fst (case mustInit env p of (Returned q, e) \<Rightarrow> (q, e)))))"
  by (cases "setupProm env") (simp_all add: Run_setup_def mustInit_def andThen_def Let_def)

lemma Run_Exited:
  assumes "Run env p = Some r"
  shows "fst r = Exited \<longleftrightarrow>
           \<not> (simulate_enable env \<and> \<not> simulate_keepGoing env) \<and> setupProm env \<noteq> None"
proof -
  obtain o1 evs where st: "Run_setup env p = (o1, evs)" by (cases "Run_setup env p")
  with Run_setup_outcome [of env p] have o: "o1 =
     (if simulate_enable env \<and> \<not> simulate_keepGoing env then Returned None
      else if setupProm env \<noteq> None then Exited
      else Returned (Some (fst (case mustInit env p of (Returned q, e) \<Rightarrow> (q, e)))))" by simp
  show ?thesis
  proof (cases "simulate_enable env \<and> \<not> simulate_keepGoing env")
    case True
    with o st assms show ?thesis by (auto simp: Run_def)
  next
    case False
    show ?thesis
    proof (cases "setupProm env")
      case None
      with False o st assms obtain r' where "PushPFCPInfoNew env = Some r'"
        and "r = andThen (Returned (fst (case mustInit env p of (Returned q, e) \<Rightarrow> (q, e))), evs)
                 (\<lambda>p'. andThen r' (\<lambda>_. (Returned p', [Node_Serve])))"
        by (auto simp: Run_def split: option.splits)
      with PushPFCPInfoNew_not_Exited [of env r'] None False show ?thesis
        by (simp add: andThen_Exited)
    next
      case (Some err)
      with False o st assms show ?thesis by (auto simp: Run_def)
    qed
  qed
qed

lemma Run_Panicked:
  assumes "Run env p = Some r"
  shows "fst r = Panicked \<longleftrightarrow>
           \<not> (simulate_enable env \<and> \<not> simulate_keepGoing env) \<and> setupProm env = None
           \<and> http_NewRequest env ''POST'' requestURL \<noteq> None"
proof -
  obtain o1 evs where st: "Run_setup env p = (o1, evs)" by (cases "Run_setup env p")
  with Run_setup_outcome [of env p] have o: "o1 =
     (if simulate_enable env \<and> \<not> simulate_keepGoing env then Returned None
      else if setupProm env \<noteq> None then Exited
      else Returned (Some (fst (case mustInit env p of (Returned q, e) \<Rightarrow> (q, e)))))" by simp
  show ?thesis
  proof (cases "simulate_enable env \<and> \<not> simulate_keepGoing env")
    case True
    with o st assms show ?thesis by (auto simp: Run_def)
  next
    case False
    show ?thesis
    proof (cases "setupProm env")
      case None
      with False o st assms obtain r' where r': "PushPFCPInfoNew env = Some r'"
        and "r = andThen (Returned (fst (case mustInit env p of (Returned q, e) \<Rightarrow> (q, e))), evs)
                 (\<lambda>p'. andThen r' (\<lambda>_. (Returned p', [Node_Serve])))"
        by (auto simp: Run_def split: option.splits)
      with PushPFCPInfoNew_Panicked [OF r'] None False show ?thesis
        by (simp add: andThen_Panicked)
    next
      case (Some err)
      with False o st assms show ?thesis by (auto simp: Run_def)
    qed
  qed
qed

subsection \<open>Slice configuration\<close>

text \<open>
  C3. For every runtime context and every slice info \<open>s\<close> that is not \<open>nil\<close>,
  \<open>addSliceInfo\<close> stores \<open>s\<close> in the single slice-info field (whatever was stored
  before is replaced), calls the backend's \<open>AddSliceInfo\<close> with \<open>s\<close> exactly once, and
  returns what the backend returned.
\<close>

theorem addSliceInfo_replaces:
  "addSliceInfo env u (Some s) =
     (dp_AddSliceInfo env (datapath u) (u\<lparr>sliceInfo := Some s\<rparr>) s,
      u\<lparr>sliceInfo := Some s\<rparr>,
      [Dp_AddSliceInfo (datapath u) s])"
  by (simp add: addSliceInfo_def Let_def)

theorem addSliceInfo_replaces_witness:
  "addSliceInfo env0 upf0 (Some slice0) =
     (None, upf0\<lparr>sliceInfo := Some slice0\<rparr>, [Dp_AddSliceInfo bess slice0])"
  using addSliceInfo_replaces [of env0 upf0 slice0]
  by (simp add: env0_def upf0_def slice0_def)

text \<open>
  C4. For every runtime context, \<open>addSliceInfo\<close> with a \<open>nil\<close> slice info returns an
  invalid-argument error, calls no backend method (no event at all) and leaves the
  whole context, the stored slice info included, as it was.
\<close>

theorem addSliceInfo_nil:
  "addSliceInfo env u None = (Some (ErrInvalidArgument ''sliceInfo'' None), u, [])"
  by (simp add: addSliceInfo_def)

theorem addSliceInfo_nil_witness:
  "addSliceInfo env0 (upf0\<lparr>sliceInfo := Some slice0\<rparr>) None =
     (Some (ErrInvalidArgument ''sliceInfo'' None), upf0\<lparr>sliceInfo := Some slice0\<rparr>, [])"
  by (rule addSliceInfo_nil)

text \<open>
  C9. \<open>addSliceInfo\<close> assigns the slice info before it calls the backend: the backend
  runs on the context that already holds \<open>s\<close>, and when the backend returns an error,
  that error is returned and the stored slice info is \<open>s\<close> all the same.
\<close>

theorem addSliceInfo_not_atomic:
  assumes "dp_AddSliceInfo env (datapath u) (u\<lparr>sliceInfo := Some s\<rparr>) s = Some err"
  shows "addSliceInfo env u (Some s) =
           (Some err, u\<lparr>sliceInfo := Some s\<rparr>, [Dp_AddSliceInfo (datapath u) s])
         \<and> sliceInfo (fst (snd (addSliceInfo env u (Some s)))) = Some s"
  using assms by (simp add: addSliceInfo_def Let_def)

theorem addSliceInfo_not_atomic_witness:
  "sliceInfo upf0 = None
   \<and> addSliceInfo env0 upf0 (Some slice_bad) =
       (Some (ErrExternal ''rejected''), upf0\<lparr>sliceInfo := Some slice_bad\<rparr>,
        [Dp_AddSliceInfo bess slice_bad])
   \<and> sliceInfo (fst (snd (addSliceInfo env0 upf0 (Some slice_bad)))) = Some slice_bad"
proof -
  have h: "dp_AddSliceInfo env0 (datapath upf0) (upf0\<lparr>sliceInfo := Some slice_bad\<rparr>) slice_bad
             = Some (ErrExternal ''rejected'')"
    by (simp add: env0_def slice_bad_def slice0_def)
  have d: "datapath upf0 = bess" "sliceInfo upf0 = None"
    by (simp_all add: upf0_def)
  from addSliceInfo_not_atomic [OF h] d show ?thesis by simp
qed

subsection \<open>The usage-report channel\<close>

text \<open>
  C5. Whenever \<open>NewUPF\<close> returns a runtime context, its usage-report channel is a
  buffered, empty channel of capacity 1024, which is at least one thousand, whatever
  the configuration, the environment and the backend variant are.
\<close>

theorem reportNotifyChan_capacity:
  assumes "NewUPF env cfg dp = (Returned (Some u), evs)"
  shows "capacity (reportNotifyChan u) = 1024 \<and> 1000 \<le> capacity (reportNotifyChan u)
         \<and> buffer (reportNotifyChan u) = []"
  using NewUPF_Some [OF assms] by (simp add: make_chan_def)

theorem reportNotifyChan_capacity_witness:
  "fst (NewUPF env0 conf0 bess) = Returned (Some upf0)
   \<and> capacity (reportNotifyChan upf0) = 1024 \<and> 1000 \<le> capacity (reportNotifyChan upf0)
   \<and> buffer (reportNotifyChan upf0) = []"
  using reportNotifyChan_capacity [OF NewUPF_env0] NewUPF_env0 by simp

subsection \<open>The session store\<close>

text \<open>
  C1. When \<open>PutSession\<close> is asked to push the rules and the backend's programming call
  fails, the Put returns an error that identifies the backend failure and leaves the
  store as it was. Conversely, whenever such a Put returns an error, the error is a
  backend failure and the store is exactly what it was before the call; in particular,
  for an F-SEID that was not in the store, \<open>GetSession\<close> afterwards reports that it
  is not found.
\<close>

theorem PutSession_atomic:
  "(program session = Some e \<longrightarrow>
      PutSession program st session pConn True msgType = (Some (ErrBackendFailure e), st))
   \<and> (PutSession program st session pConn True msgType = (Some err, st') \<longrightarrow>
        st' = st
        \<and> (\<exists>e'. program session = Some e' \<and> err = ErrBackendFailure e')
        \<and> (localSEID session \<notin> dom st \<longrightarrow>
             GetSession st' (localSEID session) = (PFCPSession_zero, False)))"
  by (auto simp: PutSession_def GetSession_def split: option.splits)

theorem PutSession_atomic_witness:
  "localSEID session0 \<notin> dom store0
   \<and> PutSession (\<lambda>s. Some (ErrExternal ''rejected'')) store0 session0 None True 50
       = (Some (ErrBackendFailure (ErrExternal ''rejected'')), store0)
   \<and> GetSession store0 (localSEID session0) = (PFCPSession_zero, False)"
proof -
  have n: "localSEID session0 \<notin> dom store0"
    by (simp add: session0_def store0_def)
  note t = PutSession_atomic [where program = "\<lambda>s. Some (ErrExternal ''rejected'')"
      and session = session0 and e = "ErrExternal ''rejected''" and st = store0
      and pConn = None and msgType = 50]
  from t have p: "PutSession (\<lambda>s. Some (ErrExternal ''rejected'')) store0 session0 None True 50
       = (Some (ErrBackendFailure (ErrExternal ''rejected'')), store0)" by blast
  from t [of "ErrBackendFailure (ErrExternal ''rejected'')" store0] p n
  have "GetSession store0 (localSEID session0) = (PFCPSession_zero, False)" by blast
  with n p show ?thesis by blast
qed

subsection \<open>Registration and serving\<close>

text \<open>
  C6, as the code has it (for a request that can be built, which is the only case for
  the constant URL and POST). The registration is a POST of the JSON document to the
  registry; it is repeated, with a pause of one second after each failure, until the
  first request that returns without error, and it never returns when every request
  fails. It is not fire-and-forget: \<open>Run\<close> performs it itself. Whenever \<open>Run\<close> gets
  to \<open>node.Serve\<close>, its events are exactly: the optional simulation, \<open>mustInit\<close>, the
  start of the HTTP goroutine, the two signal registrations, the start of the signal
  goroutine, then the failed requests up to the first request that succeeds, that
  request, and \<open>node.Serve\<close>. So the registration comes after the goroutines are
  started and before \<open>node.Serve\<close>, and \<open>Run\<close> reaches \<open>node.Serve\<close> exactly when
  some request succeeds.
\<close>

theorem registration_before_serving:
  assumes "http_NewRequest env ''POST'' requestURL = None"
  shows "Method (PushPFCPInfoNew_request env) = ''POST''
       \<and> ContentType (PushPFCPInfoNew_request env) = ''application/json''
       \<and> Body (PushPFCPInfoNew_request env) = json_Marshal \<lparr>Ip = GetLocalIP env\<rparr>
       \<and> (PushPFCPInfoNew env = None \<longleftrightarrow> (\<forall>k. isl (client_Do env k)))
       \<and> (\<not> isl (client_Do env k) \<and> (\<forall>j<k. isl (client_Do env j)) \<longrightarrow>
            PushPFCPInfoNew env =
              Some (Returned (),
                    PushPFCPInfoNew_prints @ failed_requests env (PushPFCPInfoNew_request env) 0 k
                      @ [Client_Do (PushPFCPInfoNew_request env)]))
       \<and> (Run_setup env p = (Returned (Some p'), evs) \<longrightarrow>
            (Run env p = None \<longleftrightarrow> (\<forall>k. isl (client_Do env k)))
            \<and> (\<forall>r. Run env p = Some r \<longrightarrow>
                 (\<exists>evs'. r = (Returned p', evs' @ [Client_Do (PushPFCPInfoNew_request env), Node_Serve])))
            \<and> (\<not> isl (client_Do env k) \<and> (\<forall>j<k. isl (client_Do env j)) \<longrightarrow>
                 Run env p =
                   Some (Returned p',
                         evs @ PushPFCPInfoNew_prints
                           @ failed_requests env (PushPFCPInfoNew_request env) 0 k
                           @ [Client_Do (PushPFCPInfoNew_request env), Node_Serve])))
       \<and> (Run env p = Some (out, tr) \<and> Node_Serve \<in> set tr \<longrightarrow>
            (\<exists>m. \<not> isl (client_Do env m) \<and> (\<forall>j<m. isl (client_Do env j))
               \<and> tr = (if simulate_enable env then [Upf_sim] else [])
                      @ [Mu_Lock, New_PFCPNode, Setup_ConfigHandler, Setup_Prom, Mu_Unlock,
                         Go HttpWorker, Signal_Notify SIGINT, Signal_Notify SIGTERM, Go SignalWorker,
                         Print ''parham log : calling PushPFCPInfoNew'']
                      @ PushPFCPInfoNew_prints
                      @ failed_requests env (PushPFCPInfoNew_request env) 0 m
                      @ [Client_Do (PushPFCPInfoNew_request env), Node_Serve]))"
proof -
  have a: "Method (PushPFCPInfoNew_request env) = ''POST''
       \<and> ContentType (PushPFCPInfoNew_request env) = ''application/json''
       \<and> Body (PushPFCPInfoNew_request env) = json_Marshal \<lparr>Ip = GetLocalIP env\<rparr>"
    by (simp add: PushPFCPInfoNew_request_def)
  have b: "Run env p = None \<longleftrightarrow> (\<forall>k. isl (client_Do env k))"
    if "Run_setup env p = (Returned (Some p'), evs)"
    using that PushPFCPInfoNew_None_iff [OF assms] by (auto simp: Run_def split: option.splits)
  have c: "\<exists>evs'. r = (Returned p', evs' @ [Client_Do (PushPFCPInfoNew_request env), Node_Serve])"
    if s: "Run_setup env p = (Returned (Some p'), evs)" and r: "Run env p = Some r" for r
  proof -
    from s r obtain r' where r': "PushPFCPInfoNew env = Some r'"
      and e: "r = andThen (Returned p', evs) (\<lambda>p'. andThen r' (\<lambda>_. (Returned p', [Node_Serve])))"
      by (auto simp: Run_def split: option.splits)
    from PushPFCPInfoNew_Some [OF assms r'] obtain evs2 where
      "r' = (Returned (), evs2 @ [Client_Do (PushPFCPInfoNew_request env)])" by blast
    with e have "r = (Returned p', (evs @ evs2) @ [Client_Do (PushPFCPInfoNew_request env), Node_Serve])"
      by (simp add: andThen_def)
    then show ?thesis by blast
  qed
  have d: "Run env p =
                   Some (Returned p',
                         evs @ PushPFCPInfoNew_prints
                           @ failed_requests env (PushPFCPInfoNew_request env) 0 k
                           @ [Client_Do (PushPFCPInfoNew_request env), Node_Serve])"
    if "Run_setup env p = (Returned (Some p'), evs)" "\<not> isl (client_Do env k)"
      "\<forall>j<k. isl (client_Do env j)"
    using Run_proceeds [OF assms that] .
  have e: "Run_setup env p = (Returned (Some p'), evs) \<longrightarrow>
            (Run env p = None \<longleftrightarrow> (\<forall>k. isl (client_Do env k)))
            \<and> (\<forall>r. Run env p = Some r \<longrightarrow>
                 (\<exists>evs'. r = (Returned p', evs' @ [Client_Do (PushPFCPInfoNew_request env), Node_Serve])))
            \<and> (\<not> isl (client_Do env k) \<and> (\<forall>j<k. isl (client_Do env j)) \<longrightarrow>
                 Run env p =
                   Some (Returned p',
                         evs @ PushPFCPInfoNew_prints
                           @ failed_requests env (PushPFCPInfoNew_request env) 0 k
                           @ [Client_Do (PushPFCPInfoNew_request env), Node_Serve]))"
    using b c d by blast
  have f: "\<not> isl (client_Do env k) \<and> (\<forall>j<k. isl (client_Do env j)) \<longrightarrow>
            PushPFCPInfoNew env =
              Some (Returned (),
                    PushPFCPInfoNew_prints @ failed_requests env (PushPFCPInfoNew_request env) 0 k
                      @ [Client_Do (PushPFCPInfoNew_request env)])"
    using PushPFCPInfoNew_first_success [OF assms, of k] by blast
  have g: "Run env p = Some (out, tr) \<and> Node_Serve \<in> set tr \<longrightarrow>
            (\<exists>m. \<not> isl (client_Do env m) \<and> (\<forall>j<m. isl (client_Do env j))
               \<and> tr = (if simulate_enable env then [Upf_sim] else [])
                      @ [Mu_Lock, New_PFCPNode, Setup_ConfigHandler, Setup_Prom, Mu_Unlock,
                         Go HttpWorker, Signal_Notify SIGINT, Signal_Notify SIGTERM, Go SignalWorker,
                         Print ''parham log : calling PushPFCPInfoNew'']
                      @ PushPFCPInfoNew_prints
                      @ failed_requests env (PushPFCPInfoNew_request env) 0 m
                      @ [Client_Do (PushPFCPInfoNew_request env), Node_Serve])"
    using Run_serves [OF assms, of p out tr] by blast
  show ?thesis
    by (intro conjI) (use a in blast, use a in blast, use a in blast,
        rule PushPFCPInfoNew_None_iff [OF assms], rule f, rule e, rule g)
qed

theorem registration_before_serving_witness:
  "http_NewRequest env0 ''POST'' requestURL = None
   \<and> isl (client_Do env0 0) \<and> isl (client_Do env0 1) \<and> \<not> isl (client_Do env0 2)
   \<and> PushPFCPInfoNew env0 =
       Some (Returned (),
             PushPFCPInfoNew_prints @ failed_requests env0 (PushPFCPInfoNew_request env0) 0 2
               @ [Client_Do (PushPFCPInfoNew_request env0)])
   \<and> Run env0 iface0 =
       Some (Returned iface1,
             [Mu_Lock, New_PFCPNode, Setup_ConfigHandler, Setup_Prom, Mu_Unlock,
              Go HttpWorker, Signal_Notify SIGINT, Signal_Notify SIGTERM, Go SignalWorker,
              Print ''parham log : calling PushPFCPInfoNew'']
             @ PushPFCPInfoNew_prints
             @ failed_requests env0 (PushPFCPInfoNew_request env0) 0 2
             @ [Client_Do (PushPFCPInfoNew_request env0), Node_Serve])"
proof -
  have 1: "http_NewRequest env0 ''POST'' requestURL = None" by (simp add: env0_def)
  have 2: "\<not> isl (client_Do env0 2)" by (simp add: env0_def)
  have 3: "\<forall>j<2. isl (client_Do env0 j)" by (simp add: env0_def)
  have 5: "isl (client_Do env0 0)" "isl (client_Do env0 1)" by (simp_all add: env0_def)
  note t = registration_before_serving [OF 1, of 2 iface0 iface1
      "[Mu_Lock, New_PFCPNode, Setup_ConfigHandler, Setup_Prom, Mu_Unlock,
        Go HttpWorker, Signal_Notify SIGINT, Signal_Notify SIGTERM, Go SignalWorker,
        Print ''parham log : calling PushPFCPInfoNew'']"]
  from t 2 3 have a: "PushPFCPInfoNew env0 =
       Some (Returned (),
             PushPFCPInfoNew_prints @ failed_requests env0 (PushPFCPInfoNew_request env0) 0 2
               @ [Client_Do (PushPFCPInfoNew_request env0)])" by blast
  from t Run_setup_env0 2 3 have b: "Run env0 iface0 =
       Some (Returned iface1,
             [Mu_Lock, New_PFCPNode, Setup_ConfigHandler, Setup_Prom, Mu_Unlock,
              Go HttpWorker, Signal_Notify SIGINT, Signal_Notify SIGTERM, Go SignalWorker,
              Print ''parham log : calling PushPFCPInfoNew'']
             @ PushPFCPInfoNew_prints
             @ failed_requests env0 (PushPFCPInfoNew_request env0) 0 2
             @ [Client_Do (PushPFCPInfoNew_request env0), Node_Serve])" by blast
  from 1 2 5 a b show ?thesis by blast
qed

text \<open>
  C6 as the claim states it fails: with a registry that never answers, \<open>Run\<close> starts
  the goroutines and then never gets to \<open>node.Serve\<close>, while with a registry that
  answers the third request it does. Session serving waits for the registration.
\<close>

theorem registration_counterexample:
  "fst (Run_setup env_down iface0) = Returned (Some iface1)
   \<and> Run env_down iface0 = None \<and> Run env0 iface0 \<noteq> None"
proof -
  have 1: "Run_setup env_down iface0 = Run_setup env0 iface0" by (rule Run_setup_env_down)
  have 2: "PushPFCPInfoNew env_down = None"
    by (simp add: PushPFCPInfoNew_None_iff env_down_facts)
  have 3: "\<not> isl (client_Do env0 2)" by (simp add: env0_def)
  have 4: "http_NewRequest env0 ''POST'' requestURL = None" by (simp add: env0_def)
  from 3 have "\<not> (\<forall>k. isl (client_Do env0 k))" by blast
  with PushPFCPInfoNew_None_iff [OF 4] have 5: "PushPFCPInfoNew env0 \<noteq> None" by simp
  from 1 2 5 show ?thesis by (auto simp: Run_def Run_setup_env0)
qed

subsection \<open>The backend variant\<close>



subsection \<open>A failed address lookup\<close>

text \<open>
  C10. When the software pipeline is selected and \<open>NewUPF\<close> gets as far as the address
  lookup (the node identity block before it has returned), a failed lookup of the
  access or of the core interface address makes \<open>NewUPF\<close> return \<open>nil\<close>: no handle
  and no process exit. The error is logged and not returned, so \<open>NewPFCPIface\<close>
  returns a handle whose runtime context is \<open>nil\<close>.
\<close>

theorem NewUPF_returns_nil:
  assumes "NewUPF_nodeID env cfg = (Returned nodeID, e0)"
    and "\<not> EnableP4rt cfg"
    and "isl (GetUnicastAddressFromInterface env (IfName (AccessIface cfg)))
         \<or> isl (GetUnicastAddressFromInterface env (IfName (CoreIface cfg)))"
  shows "fst (NewUPF env cfg dp) = Returned None
         \<and> (\<exists>err. snd (NewUPF env cfg dp) = [Log Error [] (Some err)])
         \<and> (\<exists>p. fst (NewPFCPIface env cfg) = Returned p \<and> upf p = None \<and> fp p = bess)"
  using NewUPF_nil [OF assms, of dp] NewUPF_nil [OF assms, of bess] assms(2)
  by (auto simp: NewPFCPIface_def andThen_def Let_def split: prod.splits)

theorem NewUPF_returns_nil_witness:
  "NewUPF_nodeID env0 conf_noaccess = (Returned ''10.0.0.5'', [])
   \<and> \<not> EnableP4rt conf_noaccess
   \<and> isl (GetUnicastAddressFromInterface env0 (IfName (AccessIface conf_noaccess)))
   \<and> fst (NewUPF env0 conf_noaccess bess) = Returned None
   \<and> (\<exists>err. snd (NewUPF env0 conf_noaccess bess) = [Log Error [] (Some err)])
   \<and> (\<exists>p. fst (NewPFCPIface env0 conf_noaccess) = Returned p \<and> upf p = None \<and> fp p = bess)"
proof -
  have 1: "\<not> EnableP4rt conf_noaccess" by (simp add: conf_noaccess_def conf0_def)
  have 2: "isl (GetUnicastAddressFromInterface env0 (IfName (AccessIface conf_noaccess)))"
    by (simp add: conf_noaccess_def conf0_def env0_def)
  then have 3: "isl (GetUnicastAddressFromInterface env0 (IfName (AccessIface conf_noaccess)))
         \<or> isl (GetUnicastAddressFromInterface env0 (IfName (CoreIface conf_noaccess)))" ..
  from NewUPF_returns_nil [OF NewUPF_nodeID_conf_noaccess 1 3, of bess]
    NewUPF_nodeID_conf_noaccess 1 2
  show ?thesis by blast
qed

subsection \<open>Shutdown\<close>

text \<open>
  C7, as the code has it. Once \<open>Run\<close> has started its goroutines, exactly SIGINT and
  SIGTERM are relayed to the signal goroutine, which on receipt logs the signal and
  calls \<open>Stop\<close> on the handle that \<open>mustInit\<close> initialised, where \<open>Stop\<close> returns.
  \<open>Stop\<close> returns exactly when the handle's HTTP server and node are both set, and
  has then done, in this order: shut the HTTP server down (an error is logged and does
  not stop the sequence), stopped the node, waited for the node; only the deferred
  cancel and unlock follow. On a handle whose HTTP server or node is \<open>nil\<close>, \<open>Stop\<close>
  panics and neither stops nor waits for the node. When the HTTP goroutine ends the
  process, it does so with a fatal log only, without stopping or waiting for the node.
\<close>

theorem shutdown_order:
  "(Run_setup env p = (Returned (Some p'), evs) \<longrightarrow>
      (relayed evs sg \<longleftrightarrow> sg = SIGINT \<or> sg = SIGTERM)
      \<and> Go SignalWorker \<in> set evs
      \<and> Run_signalWorker env p' sg =
          (Returned p', [Log Info ''System call received'' None] @ snd (Stop env p'))
      \<and> fst (Stop env p') = Returned p')
   \<and> (fst (Stop env q) = Returned q' \<longrightarrow>
        q' = q
        \<and> snd (Stop env q) =
            [Mu_Lock, Http_Shutdown]
            @ (case http_Shutdown env of
                 Some err \<Rightarrow> [Log Error ''Failed to shutdown http: '' (Some err)]
               | None \<Rightarrow> [])
            @ [Node_Stop, Node_Done, Ctx_cancel, Mu_Unlock])
   \<and> (fst (Stop env q) \<noteq> Returned q \<longrightarrow>
        Node_Stop \<notin> set (snd (Stop env q)) \<and> Node_Done \<notin> set (snd (Stop env q)))
   \<and> (fst (Stop env q) = Returned q \<longleftrightarrow> httpSrv q \<noteq> None \<and> node q \<noteq> None)
   \<and> (fst (Stop env q) = Panicked \<longleftrightarrow> httpSrv q = None \<or> node q = None)
   \<and> (fst (Run_httpWorker env) = Exited \<longrightarrow>
        snd (Run_httpWorker env) = [Log Fatal ''http server failed'' (http_ListenAndServe env)])"
proof -
  have a: "(relayed evs sg \<longleftrightarrow> sg = SIGINT \<or> sg = SIGTERM)
      \<and> Go SignalWorker \<in> set evs
      \<and> Run_signalWorker env p' sg =
          (Returned p', [Log Info ''System call received'' None] @ snd (Stop env p'))
      \<and> fst (Stop env p') = Returned p'"
    if s: "Run_setup env p = (Returned (Some p'), evs)"
  proof -
    from Run_setup_Some [OF s] have i: "httpSrv p' \<noteq> None" "node p' \<noteq> None"
      and e: "evs = (if simulate_enable env then [Upf_sim] else [])
             @ [Mu_Lock, New_PFCPNode, Setup_ConfigHandler, Setup_Prom, Mu_Unlock]
             @ [Go HttpWorker, Signal_Notify SIGINT, Signal_Notify SIGTERM, Go SignalWorker,
                Print ''parham log : calling PushPFCPInfoNew'']"
      by simp_all
    from Stop_initialised [OF i] have r: "fst (Stop env p') = Returned p'" .
    then have w: "Run_signalWorker env p' sg =
          (Returned p', [Log Info ''System call received'' None] @ snd (Stop env p'))"
      by (cases "Stop env p'") (simp add: Run_signalWorker_def andThen_def)
    from e have "(relayed evs sg \<longleftrightarrow> sg = SIGINT \<or> sg = SIGTERM) \<and> Go SignalWorker \<in> set evs"
      by (auto simp: relayed_def)
    with r w show ?thesis by blast
  qed
  have b: "fst (Run_httpWorker env) = Exited \<longrightarrow>
        snd (Run_httpWorker env) = [Log Fatal ''http server failed'' (http_ListenAndServe env)]"
    using Run_httpWorker_Exited_events [of env] by blast
  have c1: "Run_setup env p = (Returned (Some p'), evs) \<longrightarrow>
      (relayed evs sg \<longleftrightarrow> sg = SIGINT \<or> sg = SIGTERM)
      \<and> Go SignalWorker \<in> set evs
      \<and> Run_signalWorker env p' sg =
          (Returned p', [Log Info ''System call received'' None] @ snd (Stop env p'))
      \<and> fst (Stop env p') = Returned p'"
    using a by blast
  have c2: "fst (Stop env q) = Returned q' \<longrightarrow>
        q' = q
        \<and> snd (Stop env q) =
            [Mu_Lock, Http_Shutdown]
            @ (case http_Shutdown env of
                 Some err \<Rightarrow> [Log Error ''Failed to shutdown http: '' (Some err)]
               | None \<Rightarrow> [])
            @ [Node_Stop, Node_Done, Ctx_cancel, Mu_Unlock]"
    using Stop_Returned [of env q q'] by blast
  have c3: "fst (Stop env q) \<noteq> Returned q \<longrightarrow>
        Node_Stop \<notin> set (snd (Stop env q)) \<and> Node_Done \<notin> set (snd (Stop env q))"
    using Stop_not_Returned [of env q] by blast
  show ?thesis
    by (intro conjI) (rule c1, rule c2, rule c3, rule Stop_Returned_iff, rule Stop_Panicked,
        rule b)
qed

theorem shutdown_order_witness:
  "fst (Run_setup env0 iface0) = Returned (Some iface1)
   \<and> relayed (snd (Run_setup env0 iface0)) SIGINT \<and> relayed (snd (Run_setup env0 iface0)) SIGTERM
   \<and> \<not> relayed (snd (Run_setup env0 iface0)) SIGHUP
   \<and> Run_signalWorker env0 iface1 SIGTERM =
       (Returned iface1,
        [Log Info ''System call received'' None, Mu_Lock, Http_Shutdown, Node_Stop, Node_Done,
         Ctx_cancel, Mu_Unlock])
   \<and> Stop env0 iface1 =
       (Returned iface1, [Mu_Lock, Http_Shutdown, Node_Stop, Node_Done, Ctx_cancel, Mu_Unlock])
   \<and> httpSrv iface0 = None \<and> fst (Stop env0 iface0) = Panicked
   \<and> Node_Stop \<notin> set (snd (Stop env0 iface0)) \<and> Node_Done \<notin> set (snd (Stop env0 iface0))
   \<and> fst (Run_httpWorker env_httpfail) = Exited
   \<and> snd (Run_httpWorker env_httpfail) =
       [Log Fatal ''http server failed'' (Some (ErrExternal ''address already in use''))]"
proof -
  let ?evs = "[Mu_Lock, New_PFCPNode, Setup_ConfigHandler, Setup_Prom, Mu_Unlock,
       Go HttpWorker, Signal_Notify SIGINT, Signal_Notify SIGTERM, Go SignalWorker,
       Print ''parham log : calling PushPFCPInfoNew'']"
  have h: "http_Shutdown env0 = None" by (simp add: env0_def)
  note t = shutdown_order [where env = env0 and p = iface0 and p' = iface1 and evs = ?evs
      and q = iface1 and q' = iface1]
  from t [of SIGINT] t [of SIGTERM] t [of SIGHUP] Run_setup_env0 h
  have a: "relayed ?evs SIGINT" "relayed ?evs SIGTERM" "\<not> relayed ?evs SIGHUP"
    "fst (Stop env0 iface1) = Returned iface1"
    "snd (Stop env0 iface1) = [Mu_Lock, Http_Shutdown, Node_Stop, Node_Done, Ctx_cancel, Mu_Unlock]"
    "Run_signalWorker env0 iface1 SIGTERM =
       (Returned iface1, [Log Info ''System call received'' None] @ snd (Stop env0 iface1))"
    by simp_all
  have n: "httpSrv iface0 = None" by (simp add: iface0_def)
  note s = shutdown_order [where env = env0 and q = iface0]
  from s n have b: "fst (Stop env0 iface0) = Panicked" by blast
  with s have c: "Node_Stop \<notin> set (snd (Stop env0 iface0))"
    "Node_Done \<notin> set (snd (Stop env0 iface0))" by simp_all
  have l: "http_ListenAndServe env_httpfail = Some (ErrExternal ''address already in use'')"
    by (simp add: env_httpfail_def)
  have x: "fst (Run_httpWorker env_httpfail) = Exited"
    by (simp add: Run_httpWorker_env_httpfail)
  with shutdown_order [where env = env_httpfail] l
  have d: "snd (Run_httpWorker env_httpfail) =
       [Log Fatal ''http server failed'' (Some (ErrExternal ''address already in use''))]"
    by simp
  from a Run_setup_env0 n b c x d show ?thesis by (simp add: prod_eq_iff)
qed

text \<open>
  C7 as the claim states it fails. \<open>Stop\<close> does not perform its steps on every
  invocation: on the handle that \<open>NewPFCPIface\<close> returns, before \<open>mustInit\<close> has set
  the HTTP server and the node, it panics, and only the lock and the deferred calls
  happen. And the process can end without any wait for the node: when the HTTP server
  cannot listen, the HTTP goroutine ends the process with a fatal log and nothing else.
\<close>

theorem shutdown_counterexample:
  "fst (NewPFCPIface env0 conf0) = Returned iface0
   \<and> Stop env0 iface0 = (Panicked, [Mu_Lock, Ctx_cancel, Mu_Unlock])
   \<and> Run_httpWorker env_httpfail =
       (Exited, [Log Fatal ''http server failed'' (Some (ErrExternal ''address already in use''))])"
  using NewPFCPIface_env0 Stop_env0_iface0 Run_httpWorker_env_httpfail by simp

subsection \<open>Process exit\<close>

text \<open>
  C8, as the code has it. \<open>log.Fatalln\<close> ends the process exactly in these cases.
  In \<open>NewUPF\<close>: the host name cannot be obtained when \<open>UseFQDN\<close> is set and no node
  identity is configured; a non-empty node identity cannot be resolved; or, when the
  identity block has returned and the address lookup has not made \<open>NewUPF\<close> return
  \<open>nil\<close>, the response timeout cannot be parsed, or the heartbeat interval cannot be
  parsed while the heartbeat timer is enabled and the interval is not empty, or the IP
  pool cannot be built while UE IP allocation is enabled. In \<open>mustInit\<close>: exactly
  when \<open>setupProm\<close> fails. In the HTTP goroutine of \<open>Run\<close>: exactly when the server
  stops with an error other than \<open>ErrServerClosed\<close>. \<open>Stop\<close>, the signal goroutine
  and the registration never call it.

  A panic ends the process exactly in these cases. In \<open>NewUPF\<close>: the resolver
  returns no address and no error for a non-empty node identity. In \<open>Stop\<close> and in the
  signal goroutine that calls it: the handle's HTTP server or node is \<open>nil\<close>. In the
  registration, when it returns at all: the request cannot be built. \<open>mustInit\<close> and
  the HTTP goroutine never panic.

  \<open>NewPFCPIface\<close> and \<open>Run\<close> end the process exactly when the calls they make
  do: \<open>NewPFCPIface\<close> with \<open>NewUPF\<close> for the backend it selects; \<open>Run\<close>, when it
  ends at all, by \<open>log.Fatalln\<close> when it gets to \<open>mustInit\<close> and \<open>setupProm\<close> fails,
  and by a panic when it gets past \<open>mustInit\<close> and the request cannot be built.

  No request-time error in the two files ends the process: a failed registration
  request and an HTTP shutdown error in \<open>Stop\<close> have no part in the conditions
  above, and \<open>addSliceInfo\<close> returns its errors to the caller, the invalid-argument
  error for \<open>nil\<close> and otherwise whatever the backend returned, and logs no fatal
  error.
\<close>

theorem process_exits:
  "(fst (NewUPF env cfg dp) = Exited \<longleftrightarrow>
      (UseFQDN (CPIface cfg) \<and> CPIfaceInfo.NodeID (CPIface cfg) = [] \<and> isl (FqdnHostname env))
      \<or> (nodeID_to_resolve env cfg \<noteq> [] \<and> isl (LookupHost env (nodeID_to_resolve env cfg)))
      \<or> ((nodeID_to_resolve env cfg = []
           \<or> (\<exists>h hs. LookupHost env (nodeID_to_resolve env cfg) = Inr (h # hs)))
         \<and> (EnableP4rt cfg
            \<or> (\<not> isl (GetUnicastAddressFromInterface env (IfName (AccessIface cfg)))
               \<and> \<not> isl (GetUnicastAddressFromInterface env (IfName (CoreIface cfg)))))
         \<and> (isl (ParseDuration env (RespTimeout cfg))
            \<or> (EnableHBTimer cfg \<and> HeartBeatInterval cfg \<noteq> []
               \<and> isl (ParseDuration env (HeartBeatInterval cfg)))
            \<or> (CPIfaceInfo.EnableUeIPAlloc (CPIface cfg)
               \<and> isl (NewIPPool env (UEIPPool (CPIface cfg)))))))
   \<and> (fst (mustInit env p) = Exited \<longleftrightarrow> setupProm env \<noteq> None)
   \<and> (fst (Run_httpWorker env) = Exited \<longleftrightarrow>
        (\<exists>err. http_ListenAndServe env = Some err \<and> err \<noteq> ErrServerClosed))
   \<and> fst (Stop env p) \<noteq> Exited
   \<and> fst (Run_signalWorker env p sg) \<noteq> Exited
   \<and> (\<forall>r. PushPFCPInfoNew env = Some r \<longrightarrow> fst r \<noteq> Exited)
   \<and> (fst (NewUPF env cfg dp) = Panicked \<longleftrightarrow>
        nodeID_to_resolve env cfg \<noteq> [] \<and> LookupHost env (nodeID_to_resolve env cfg) = Inr [])
   \<and> fst (mustInit env p) \<noteq> Panicked
   \<and> fst (Run_httpWorker env) \<noteq> Panicked
   \<and> (fst (Stop env p) = Panicked \<longleftrightarrow> httpSrv p = None \<or> node p = None)
   \<and> (fst (Run_signalWorker env p sg) = Panicked \<longleftrightarrow> httpSrv p = None \<or> node p = None)
   \<and> (\<forall>r. PushPFCPInfoNew env = Some r \<longrightarrow>
        (fst r = Panicked \<longleftrightarrow> http_NewRequest env ''POST'' requestURL \<noteq> None))
   \<and> (\<forall>m e. Log Fatal m e \<notin> set (snd (snd (addSliceInfo env u si))))
   \<and> fst (addSliceInfo env u si) =
       (case si of
          None \<Rightarrow> Some (ErrInvalidArgument ''sliceInfo'' None)
        | Some s \<Rightarrow> dp_AddSliceInfo env (datapath u) (u\<lparr>sliceInfo := Some s\<rparr>) s)
   \<and> (fst (NewPFCPIface env cfg) = Exited \<longleftrightarrow>
        fst (NewUPF env cfg (if EnableP4rt cfg then UP4 else bess)) = Exited)
   \<and> (fst (NewPFCPIface env cfg) = Panicked \<longleftrightarrow>
        fst (NewUPF env cfg (if EnableP4rt cfg then UP4 else bess)) = Panicked)
   \<and> (\<forall>r. Run env p = Some r \<longrightarrow>
        (fst r = Exited \<longleftrightarrow>
           \<not> (simulate_enable env \<and> \<not> simulate_keepGoing env) \<and> setupProm env \<noteq> None)
        \<and> (fst r = Panicked \<longleftrightarrow>
             \<not> (simulate_enable env \<and> \<not> simulate_keepGoing env) \<and> setupProm env = None
             \<and> http_NewRequest env ''POST'' requestURL \<noteq> None))"
proof -
  have a: "fst (NewUPF env cfg dp) = Exited \<longleftrightarrow>
      (UseFQDN (CPIface cfg) \<and> CPIfaceInfo.NodeID (CPIface cfg) = [] \<and> isl (FqdnHostname env))
      \<or> (nodeID_to_resolve env cfg \<noteq> [] \<and> isl (LookupHost env (nodeID_to_resolve env cfg)))
      \<or> ((nodeID_to_resolve env cfg = []
           \<or> (\<exists>h hs. LookupHost env (nodeID_to_resolve env cfg) = Inr (h # hs)))
         \<and> (EnableP4rt cfg
            \<or> (\<not> isl (GetUnicastAddressFromInterface env (IfName (AccessIface cfg)))
               \<and> \<not> isl (GetUnicastAddressFromInterface env (IfName (CoreIface cfg)))))
         \<and> (isl (ParseDuration env (RespTimeout cfg))
            \<or> (EnableHBTimer cfg \<and> HeartBeatInterval cfg \<noteq> []
               \<and> isl (ParseDuration env (HeartBeatInterval cfg)))
            \<or> (CPIfaceInfo.EnableUeIPAlloc (CPIface cfg)
               \<and> isl (NewIPPool env (UEIPPool (CPIface cfg))))))"
    unfolding NewUPF_Exited NewUPF_nodeID_Exited NewUPF_nodeID_Returned by blast
  have b: "\<forall>r. PushPFCPInfoNew env = Some r \<longrightarrow> fst r \<noteq> Exited"
    using PushPFCPInfoNew_not_Exited [of env] by blast
  have c: "\<forall>r. PushPFCPInfoNew env = Some r \<longrightarrow>
        (fst r = Panicked \<longleftrightarrow> http_NewRequest env ''POST'' requestURL \<noteq> None)"
    using PushPFCPInfoNew_Panicked [of env] by blast
  have d: "\<forall>m e. Log Fatal m e \<notin> set (snd (snd (addSliceInfo env u si)))"
    using addSliceInfo_no_Fatal [of _ _ env u si] by blast
  have f: "\<forall>r. Run env p = Some r \<longrightarrow>
        (fst r = Exited \<longleftrightarrow>
           \<not> (simulate_enable env \<and> \<not> simulate_keepGoing env) \<and> setupProm env \<noteq> None)
        \<and> (fst r = Panicked \<longleftrightarrow>
             \<not> (simulate_enable env \<and> \<not> simulate_keepGoing env) \<and> setupProm env = None
             \<and> http_NewRequest env ''POST'' requestURL \<noteq> None)"
    using Run_Exited [of env p] Run_Panicked [of env p] by blast
  show ?thesis
    by (intro conjI) (rule a, rule mustInit_Exited, rule Run_httpWorker_Exited,
        rule Stop_not_Exited, rule Run_signalWorker_not_Exited, rule b,
        rule NewUPF_Panicked, rule mustInit_not_Panicked, rule Run_httpWorker_not_Panicked,
        rule Stop_Panicked, rule Run_signalWorker_Panicked, rule c, rule d,
        rule addSliceInfo_result, rule NewPFCPIface_Exited, rule NewPFCPIface_Panicked, rule f)
qed

theorem process_exits_witness:
  "isl (ParseDuration env0 (RespTimeout conf_badresp))
   \<and> fst (NewUPF env0 conf_badresp bess) = Exited
   \<and> setupProm env_prom \<noteq> None
   \<and> fst (mustInit env_prom iface0) = Exited
   \<and> fst (NewUPF env0 conf0 bess) \<noteq> Exited
   \<and> fst (Stop env0 iface1) \<noteq> Exited
   \<and> httpSrv iface0 = None
   \<and> fst (Stop env0 iface0) = Panicked
   \<and> fst (Run_signalWorker env0 iface0 SIGINT) = Panicked
   \<and> fst (addSliceInfo env0 upf0 None) = Some (ErrInvalidArgument ''sliceInfo'' None)"
proof -
  have 1: "isl (ParseDuration env0 (RespTimeout conf_badresp))"
    by (simp add: env0_def conf_badresp_def)
  have 2: "nodeID_to_resolve env0 conf_badresp = ''upf.example''"
    by (simp add: nodeID_to_resolve_def conf_badresp_def conf0_def)
  have 3: "LookupHost env0 ''upf.example'' = Inr [''10.0.0.5'']" by (simp add: env0_def)
  have 4: "\<not> isl (GetUnicastAddressFromInterface env0 (IfName (AccessIface conf_badresp)))"
    "\<not> isl (GetUnicastAddressFromInterface env0 (IfName (CoreIface conf_badresp)))"
    by (simp_all add: env0_def conf_badresp_def conf0_def)
  have 5: "setupProm env_prom \<noteq> None" by (simp add: env_prom_def)
  have 6: "httpSrv iface0 = None" by (simp add: iface0_def)
  note t = process_exits [where p = iface0 and dp = bess and sg = SIGINT and u = upf0
      and si = None]
  from t [where env = env0 and cfg = conf_badresp] 1 2 3 4
  have a: "fst (NewUPF env0 conf_badresp bess) = Exited" by simp
  from t [where env = env_prom] 5 have b: "fst (mustInit env_prom iface0) = Exited" by simp
  from process_exits [where env = env0 and p = iface1]
  have c: "fst (Stop env0 iface1) \<noteq> Exited" by simp
  from t [where env = env0] 6 have d: "fst (Stop env0 iface0) = Panicked"
    "fst (Run_signalWorker env0 iface0 SIGINT) = Panicked" by simp_all
  from t [where env = env0]
  have e: "fst (addSliceInfo env0 upf0 None) = Some (ErrInvalidArgument ''sliceInfo'' None)"
    by simp
  from a b c d e 1 5 6 NewUPF_env0 show ?thesis by simp
qed

text \<open>
  C8 as the claim states it fails twice. With the configuration that \<open>NewPFCPIface\<close>
  accepts, a failure of \<open>setupProm\<close> ends the process in \<open>mustInit\<close>: an exit that no
  configuration error causes. And a heartbeat interval that cannot be parsed does not
  end the process when the heartbeat timer is disabled: \<open>NewUPF\<close> returns a runtime
  context.
\<close>

theorem process_exits_counterexample:
  "fst (NewPFCPIface env_prom conf0) = Returned iface0
   \<and> fst (mustInit env_prom iface0) = Exited
   \<and> isl (ParseDuration env0 (HeartBeatInterval conf_hb))
   \<and> fst (NewUPF env0 conf_hb bess) = Returned (Some (upf0\<lparr>enableHBTimer := False, hbInterval := 0\<rparr>))"
proof -
  have 1: "fst (mustInit env_prom iface0) = Exited"
    by (simp add: mustInit_Exited env_prom_def)
  have 2: "isl (ParseDuration env0 (HeartBeatInterval conf_hb))"
    by (simp add: env0_def conf_hb_def)
  from NewPFCPIface_env_prom 1 2 NewUPF_conf_hb show ?thesis by simp
qed

end
